theory Spec2Isabelle
  imports Complex_Main "HOL-Library.AList"
begin

section \<open>Inline-XBRL parser and dimensional fact matcher (src/xbrl-parser.js)\<close>

text \<open>
  A shallow embedding of the extraction and matching functions of
  \<^verbatim>\<open>src/xbrl-parser.js\<close>.  Strings are lists of ASCII characters.  A JavaScript
  number is \<open>NaN\<close>, an infinity, or an exact rational: finite arithmetic is not rounded,
  and negative zero is identified with zero (the code never tells them apart).  An object
  used as a dictionary is the list of its own entries; reading a key also finds the
  members that every plain object inherits from \<^verbatim>\<open>Object.prototype\<close>, and a failed
  property access or call is the error value \<open>TypeError\<close>.
\<close>

subsection \<open>Strings\<close>

text \<open>
  \<^verbatim>\<open>toLowerCase\<close> on one ASCII character, by the bits of its code (lowest bit first): the
  upper-case letters are the codes \<open>0x41\<close> to \<open>0x5A\<close>, that is \<open>010\<close> followed by five
  bits between 1 and 26, and the lower-case letter has the bit of value \<open>0x20\<close> set.
\<close>

fun toLowerChar :: "char \<Rightarrow> char" where
  "toLowerChar (Char b0 b1 b2 b3 b4 b5 b6 b7) =
     (if \<not> b7 \<and> b6 \<and> \<not> b5 \<and> (b0 \<or> b1 \<or> b2 \<or> b3 \<or> b4) \<and>
         \<not> (b4 \<and> b3 \<and> (b2 \<or> (b1 \<and> b0)))
      then Char b0 b1 b2 b3 b4 True b6 b7
      else Char b0 b1 b2 b3 b4 b5 b6 b7)"

definition toLowerCase :: "string \<Rightarrow> string" where
  "toLowerCase s = map toLowerChar s"

text \<open>\<^verbatim>\<open>hay.startsWith(needle)\<close>, returning the text after the needle.\<close>

fun strip_prefix :: "string \<Rightarrow> string \<Rightarrow> string option" where
  "strip_prefix [] s = Some s"
| "strip_prefix (p # ps) [] = None"
| "strip_prefix (p # ps) (c # cs) = (if p = c then strip_prefix ps cs else None)"

text \<open>\<^verbatim>\<open>hay.includes(needle)\<close>: the needle occurs at some position of the text.\<close>

fun str_includes :: "string \<Rightarrow> string \<Rightarrow> bool" where
  "str_includes [] needle = (needle = [])"
| "str_includes (c # cs) needle =
     (strip_prefix needle (c # cs) \<noteq> None \<or> str_includes cs needle)"

text \<open>\<^verbatim>\<open>s.split(sep)\<close> for a one-character separator: never the empty list.\<close>

fun str_split :: "char \<Rightarrow> string \<Rightarrow> string list" where
  "str_split sep [] = [[]]"
| "str_split sep (c # cs) =
     (if c = sep then [] # str_split sep cs
      else (case str_split sep cs of p # ps \<Rightarrow> (c # p) # ps | [] \<Rightarrow> [[c]]))"

definition is_ws :: "char \<Rightarrow> bool" where
  "is_ws c = (c \<in> set [CHR '' '', CHR 0x09, CHR 0x0A, CHR 0x0B, CHR 0x0C, CHR 0x0D])"

definition trim :: "string \<Rightarrow> string" where
  "trim s = rev (dropWhile is_ws (rev (dropWhile is_ws s)))"

subsection \<open>Concept names\<close>

text \<open>
  \<^verbatim>\<open>function parseXbrlName(name) {
    const parts = name.split(':');
    if (parts.length === 2) { return [parts[0], parts[1]]; }
    return ['default', name];
  }\<close>
\<close>

definition parseXbrlName :: "string \<Rightarrow> string \<times> string" where
  "parseXbrlName name =
     (let parts = str_split CHR '':'' name in
      if length parts = 2 then (parts ! 0, parts ! 1) else (''default'', name))"

subsection \<open>Numbers\<close>

datatype jsnum = NaN | PInf | NInf | Num rat

text \<open>Truthiness of a number: \<open>NaN\<close> and zero are falsy.\<close>

fun num_truthy :: "jsnum \<Rightarrow> bool" where
  "num_truthy NaN = False"
| "num_truthy (Num r) = (r \<noteq> 0)"
| "num_truthy _ = True"

fun isNaN :: "jsnum \<Rightarrow> bool" where
  "isNaN NaN = True"
| "isNaN _ = False"

text \<open>The relational operators \<^verbatim>\<open><\<close> and \<^verbatim>\<open>>\<close>: every comparison with \<open>NaN\<close> is false.\<close>

fun js_lt :: "jsnum \<Rightarrow> jsnum \<Rightarrow> bool" where
  "js_lt NaN _ = False"
| "js_lt _ NaN = False"
| "js_lt (Num a) (Num b) = (a < b)"
| "js_lt _ NInf = False"
| "js_lt NInf _ = True"
| "js_lt PInf _ = False"
| "js_lt _ PInf = True"

definition js_gt :: "jsnum \<Rightarrow> jsnum \<Rightarrow> bool" where
  "js_gt a b = js_lt b a"

text \<open>The product \<^verbatim>\<open>a * b\<close>: zero times an infinity is \<open>NaN\<close>.\<close>

definition num_sign :: "jsnum \<Rightarrow> int" where
  "num_sign a = (case a of NaN \<Rightarrow> 0 | PInf \<Rightarrow> 1 | NInf \<Rightarrow> - 1 | Num r \<Rightarrow> sgn (fst (quotient_of r)))"

fun js_mul :: "jsnum \<Rightarrow> jsnum \<Rightarrow> jsnum" where
  "js_mul NaN _ = NaN"
| "js_mul _ NaN = NaN"
| "js_mul (Num a) (Num b) = Num (a * b)"
| "js_mul a b =
     (let s = num_sign a * num_sign b in
      if s = 0 then NaN else if 0 < s then PInf else NInf)"

text \<open>
  \<^verbatim>\<open>Math.pow(10, n)\<close> for the result \<open>n\<close> of \<^verbatim>\<open>parseInt\<close> (an integer or \<open>NaN\<close>).  Double
  precision has no finite power of ten above \<open>10^308\<close> and none that is not zero below
  \<open>10^-323\<close>.
\<close>

definition pow10 :: "jsnum \<Rightarrow> jsnum" where
  "pow10 n =
     (case n of
        Num k \<Rightarrow>
          (let e = \<lfloor>k\<rfloor> in
           if 308 < e then PInf
           else if e < - 323 then Num 0
           else if 0 \<le> e then Num (10 ^ nat e)
           else Num (1 / 10 ^ nat (- e)))
      | _ \<Rightarrow> NaN)"

subsection \<open>Reading numbers from text\<close>

definition is_digit :: "char \<Rightarrow> bool" where
  "is_digit c = (c \<in> set ''0123456789'')"

definition digit_val :: "char \<Rightarrow> int" where
  "digit_val c =
     (case map_of (zip ''0123456789abcdefABCDEF''
                       [0, 1, 2, 3, 4, 5, 6, 7, 8, 9, 10, 11, 12, 13, 14, 15, 10, 11, 12, 13, 14, 15]) c of
        None \<Rightarrow> 0 | Some d \<Rightarrow> d)"

definition int_of_digits :: "int \<Rightarrow> string \<Rightarrow> int" where
  "int_of_digits base ds = foldl (\<lambda>a c. base * a + digit_val c) 0 ds"

text \<open>An optional sign: its factor and the text after it.\<close>

fun read_sign :: "string \<Rightarrow> int \<times> string" where
  "read_sign (c # cs) =
     (if c = CHR ''-'' then (- 1, cs) else if c = CHR ''+'' then (1, cs) else (1, c # cs))"
| "read_sign [] = (1, [])"

text \<open>
  The exponent part of a decimal literal, \<^verbatim>\<open>e\<close> or \<^verbatim>\<open>E\<close> with an optional sign and at
  least one digit; an incomplete exponent is not part of the number.
\<close>

definition read_exponent :: "string \<Rightarrow> int" where
  "read_exponent s =
     (case s of
        [] \<Rightarrow> 0
      | c # cs \<Rightarrow>
          if c = CHR ''e'' \<or> c = CHR ''E'' then
            (let (sg, r) = read_sign cs; ds = takeWhile is_digit r in
             if ds = [] then 0 else sg * int_of_digits 10 ds)
          else 0)"

text \<open>
  \<^verbatim>\<open>parseFloat(s)\<close>: skip leading white space, then read the longest prefix that is a
  decimal literal (sign, digits, fraction, exponent) or a signed \<^verbatim>\<open>Infinity\<close>; \<open>NaN\<close>
  when there is none.  Text after the literal is ignored.
\<close>

definition parseFloat :: "string \<Rightarrow> jsnum" where
  "parseFloat s =
     (let (sg, t) = read_sign (dropWhile is_ws s) in
      if strip_prefix ''Infinity'' t \<noteq> None then (if sg < 0 then NInf else PInf)
      else
        let ip = takeWhile is_digit t;
            t2 = dropWhile is_digit t;
            hasdot = (t2 \<noteq> [] \<and> hd t2 = CHR ''.'');
            fp = (if hasdot then takeWhile is_digit (tl t2) else []);
            t3 = (if hasdot then dropWhile is_digit (tl t2) else t2)
        in if ip = [] \<and> fp = [] then NaN
           else
             let m = of_int (int_of_digits 10 ip) + of_int (int_of_digits 10 fp) / 10 ^ length fp;
                 e = read_exponent t3
             in Num (of_int sg * m * (if 0 \<le> e then 10 ^ nat e else 1 / 10 ^ nat (- e))))"

text \<open>
  \<^verbatim>\<open>parseInt(s)\<close> without a radix: white space, sign, then hexadecimal digits after
  \<^verbatim>\<open>0x\<close> or decimal digits otherwise; \<open>NaN\<close> when no digit follows.
\<close>

definition is_hex_digit :: "char \<Rightarrow> bool" where
  "is_hex_digit c = (c \<in> set ''0123456789abcdefABCDEF'')"

definition parseInt :: "string \<Rightarrow> jsnum" where
  "parseInt s =
     (let (sg, t) = read_sign (dropWhile is_ws s) in
      if strip_prefix ''0x'' t \<noteq> None \<or> strip_prefix ''0X'' t \<noteq> None then
        (let ds = takeWhile is_hex_digit (drop 2 t) in
         if ds = [] then NaN else Num (of_int (sg * int_of_digits 16 ds)))
      else
        (let ds = takeWhile is_digit t in
         if ds = [] then NaN else Num (of_int (sg * int_of_digits 10 ds))))"

subsection \<open>Text of a number\<close>

definition digit_char :: "int \<Rightarrow> char" where
  "digit_char d = ''0123456789'' ! nat d"

function dec_digits :: "int \<Rightarrow> string" where
  "dec_digits n =
     (if n < 10 then [digit_char n] else dec_digits (n div 10) @ [digit_char (n mod 10)])"
  by pat_completeness auto
termination
  by (relation "measure nat") auto

declare dec_digits.simps [simp del]

text \<open>The digits of the fraction \<open>r / d\<close> below one, at most \<open>k\<close> of them.\<close>

fun frac_digits :: "nat \<Rightarrow> int \<Rightarrow> int \<Rightarrow> string" where
  "frac_digits 0 r d = []"
| "frac_digits (Suc k) r d =
     (if r = 0 then [] else digit_char (r * 10 div d) # frac_digits k (r * 10 mod d) d)"

text \<open>
  \<^verbatim>\<open>n.toString()\<close> for a number: the decimal digits of an integer, and the decimal
  expansion of a fraction.  This is JavaScript's text for integers below \<open>10^21\<close> and short
  decimal fractions; exponent notation is not modelled.
\<close>

definition num_toString :: "jsnum \<Rightarrow> string" where
  "num_toString a =
     (case a of
        NaN \<Rightarrow> ''NaN''
      | PInf \<Rightarrow> ''Infinity''
      | NInf \<Rightarrow> ''-Infinity''
      | Num r \<Rightarrow>
          (let (n, d) = quotient_of r; m = \<bar>n\<bar> in
           (if n < 0 then ''-'' else []) @ dec_digits (m div d) @
           (if m mod d = 0 then [] else CHR ''.'' # frac_digits 20 (m mod d) d)))"

subsection \<open>Values\<close>

text \<open>The decoded value of a fact is a number or a string.\<close>

datatype jsval = JNum jsnum | JStr string

fun toString :: "jsval \<Rightarrow> string" where
  "toString (JNum a) = num_toString a"
| "toString (JStr s) = s"

text \<open>
  \<^verbatim>\<open>function parseNumericValue(value, scale) {
    const numValue = parseFloat(value.replace(/,/g, '')) || 0;
    if (scale) {
      const scaleNum = parseInt(scale);
      return numValue * Math.pow(10, scaleNum);
    }
    return numValue;
  }\<close>
  The scale is an optional string (\<open>None\<close> is \<^verbatim>\<open>undefined\<close>); an empty string is falsy.
\<close>

definition or_zero :: "jsnum \<Rightarrow> jsnum" where
  "or_zero a = (if num_truthy a then a else Num 0)"

definition str_truthy :: "string option \<Rightarrow> bool" where
  "str_truthy so = (case so of None \<Rightarrow> False | Some s \<Rightarrow> s \<noteq> [])"

definition parseNumericValue :: "string \<Rightarrow> string option \<Rightarrow> jsnum" where
  "parseNumericValue v scale =
     (let numValue = or_zero (parseFloat (filter (\<lambda>c. c \<noteq> CHR '','') v)) in
      if str_truthy scale then
        (let scaleNum = parseInt (the scale) in js_mul numValue (pow10 scaleNum))
      else numValue)"

subsection \<open>Regular expressions\<close>

text \<open>
  The fragment of JavaScript regular expressions that the parser's patterns are written
  in: literal text, a greedy or lazy star over a one-character class (\<^verbatim>\<open>[^c]*\<close>,
  \<^verbatim>\<open>.*?\<close> under the flag \<^verbatim>\<open>s\<close>), capture groups and the optional non-capturing
  group \<^verbatim>\<open>(?:...)?\<close>.
\<close>

datatype cls = NotCh char | AnyCh

datatype rx = Lit string | Star cls | LazyStar cls | Cap nat "rx list" | Opt "rx list"

record regex =
  icase :: bool
  groups :: nat
  body :: "rx list"

text \<open>
  The work that remains in a match: pattern items, and the ends of the capture groups
  that are open, each with the text at which it was opened.
\<close>

datatype task = Do rx | Close nat string

type_synonym caps = "string option list"

text \<open>Two characters are the same, up to case under the flag \<^verbatim>\<open>i\<close>.\<close>

definition ch_eq :: "bool \<Rightarrow> char \<Rightarrow> char \<Rightarrow> bool" where
  "ch_eq ic a b =
     (if a = b then True else if ic then toLowerChar a = toLowerChar b else False)"

fun cls_has :: "bool \<Rightarrow> cls \<Rightarrow> char \<Rightarrow> bool" where
  "cls_has ic (NotCh x) c = (\<not> ch_eq ic x c)"
| "cls_has ic AnyCh c = True"

fun lit_prefix :: "bool \<Rightarrow> string \<Rightarrow> string \<Rightarrow> string option" where
  "lit_prefix ic [] s = Some s"
| "lit_prefix ic (p # ps) [] = None"
| "lit_prefix ic (p # ps) (c # cs) = (if ch_eq ic p c then lit_prefix ic ps cs else None)"

fun rx_weight :: "rx \<Rightarrow> nat" where
  "rx_weight (Cap n rs) = 2 + sum_list (map rx_weight rs)"
| "rx_weight (Opt rs) = 1 + sum_list (map rx_weight rs)"
| "rx_weight _ = 1"

fun task_weight :: "task \<Rightarrow> nat" where
  "task_weight (Do r) = rx_weight r"
| "task_weight (Close n s) = 1"

text \<open>
  The backtracking matcher, anchored at the start of the text.  It returns the first
  way to match in the engine's order of preference, with the text left over and the
  captures: a greedy star first takes one more character and gives it back only when
  the rest of the pattern fails, a lazy star first tries the rest of the pattern, and an
  optional group is first tried and skipped only when the match fails with it.
\<close>

function rmatch :: "bool \<Rightarrow> task list \<Rightarrow> string \<Rightarrow> caps \<Rightarrow> (string \<times> caps) option" where
  "rmatch ic [] s cs = Some (s, cs)"
| "rmatch ic (Close n s0 # ts) s cs =
     rmatch ic ts s (cs[n := Some (take (length s0 - length s) s0)])"
| "rmatch ic (Do (Lit l) # ts) s cs =
     (case lit_prefix ic l s of None \<Rightarrow> None | Some s' \<Rightarrow> rmatch ic ts s' cs)"
| "rmatch ic (Do (Star k) # ts) s cs =
     (case s of
        [] \<Rightarrow> rmatch ic ts s cs
      | c # r \<Rightarrow>
          if cls_has ic k c then
            (case rmatch ic (Do (Star k) # ts) r cs of
               Some res \<Rightarrow> Some res
             | None \<Rightarrow> rmatch ic ts s cs)
          else rmatch ic ts s cs)"
| "rmatch ic (Do (LazyStar k) # ts) s cs =
     (case rmatch ic ts s cs of
        Some res \<Rightarrow> Some res
      | None \<Rightarrow>
          (case s of
             [] \<Rightarrow> None
           | c # r \<Rightarrow> if cls_has ic k c then rmatch ic (Do (LazyStar k) # ts) r cs else None))"
| "rmatch ic (Do (Cap n rs) # ts) s cs = rmatch ic (map Do rs @ Close n s # ts) s cs"
| "rmatch ic (Do (Opt rs) # ts) s cs =
     (case rmatch ic (map Do rs @ ts) s cs of
        Some res \<Rightarrow> Some res
      | None \<Rightarrow> rmatch ic ts s cs)"
  by pat_completeness auto
termination
  by (relation "measures [\<lambda>(ic, ts, s, cs). sum_list (map task_weight ts),
                          \<lambda>(ic, ts, s, cs). length s]")
     (auto simp: comp_def)

text \<open>
  One attempt at one position.  Group \<open>0\<close> is the whole match, as in the array that
  \<^verbatim>\<open>exec\<close> returns; a group that took no part in the match is \<open>None\<close>
  (\<^verbatim>\<open>undefined\<close>).
\<close>

definition rx_at :: "regex \<Rightarrow> string \<Rightarrow> (string \<times> caps) option" where
  "rx_at re s = rmatch (icase re) [Do (Cap 0 (body re))] s (replicate (Suc (groups re)) None)"

text \<open>\<^verbatim>\<open>text.match(re)\<close> without the flag \<^verbatim>\<open>g\<close>: the leftmost match.\<close>

fun rx_search :: "regex \<Rightarrow> string \<Rightarrow> caps option" where
  "rx_search re [] = map_option snd (rx_at re [])"
| "rx_search re (c # cs) =
     (case rx_at re (c # cs) of Some (rest, caps) \<Rightarrow> Some caps | None \<Rightarrow> rx_search re cs)"

text \<open>
  \<^verbatim>\<open>while ((match = re.exec(text)) !== null)\<close> with the flag \<^verbatim>\<open>g\<close>: the matches from
  left to right, each search starting where the previous match ended.  A match of the
  empty text would leave \<^verbatim>\<open>lastIndex\<close> in place; every pattern of the parser starts with
  literal text, so no match is empty and the first branch is the one taken.
\<close>

function exec_all :: "regex \<Rightarrow> string \<Rightarrow> caps list" where
  "exec_all re s =
     (case rx_at re s of
        Some (rest, caps) \<Rightarrow>
          if length rest < length s then caps # exec_all re rest else [caps]
      | None \<Rightarrow> (case s of [] \<Rightarrow> [] | c # r \<Rightarrow> exec_all re r))"
  by pat_completeness auto
termination
  by (relation "measure (\<lambda>(re, s). length s)") auto

declare exec_all.simps [simp del]

text \<open>The text of a group, for the groups that take part in every match.\<close>

definition grp :: "caps \<Rightarrow> nat \<Rightarrow> string" where
  "grp m n = (case m ! n of Some s \<Rightarrow> s | None \<Rightarrow> [])"





subsection \<open>Fact annotations\<close>

text \<open>
  The records pushed by \<^verbatim>\<open>extractFactsFromIxbrl\<close>.  The field \<^verbatim>\<open>value\<close> is \<open>fvalue\<close>;
  a field that a record does not have, or whose value is \<^verbatim>\<open>undefined\<close>, is \<open>None\<close>.
\<close>

record fact =
  namespace :: string
  concept :: string
  fvalue :: jsval
  valueRaw :: string
  contextRef :: string
  unitRef :: "string option"
  decimals :: "string option"
  scale :: "string option"
  fullTag :: string
  factType :: string

text \<open>
  \<^verbatim>\<open>/<ix:nonFraction[^>]*name="([^"]*)"[^>]*contextRef="([^"]*)"[^>]*(?:unitRef="([^"]*)")?
[^>]*(?:decimals="([^"]*)")?[^>]*(?:scale="([^"]*)")?[^>]*>([^<]*)<\/ix:nonFraction>/gi\<close>
\<close>

definition nonFractionPattern :: regex where
  \<open>nonFractionPattern = \<lparr>icase = True, groups = 6, body =
     [Lit ''<ix:nonFraction'', Star (NotCh CHR ''>''),
      Lit ''name="'', Cap 1 [Star (NotCh CHR ''"'')], Lit ''"'', Star (NotCh CHR ''>''),
      Lit ''contextRef="'', Cap 2 [Star (NotCh CHR ''"'')], Lit ''"'', Star (NotCh CHR ''>''),
      Opt [Lit ''unitRef="'', Cap 3 [Star (NotCh CHR ''"'')], Lit ''"''], Star (NotCh CHR ''>''),
      Opt [Lit ''decimals="'', Cap 4 [Star (NotCh CHR ''"'')], Lit ''"''], Star (NotCh CHR ''>''),
      Opt [Lit ''scale="'', Cap 5 [Star (NotCh CHR ''"'')], Lit ''"''], Star (NotCh CHR ''>''),
      Lit ''>'', Cap 6 [Star (NotCh CHR ''<'')], Lit ''</ix:nonFraction>'']\<rparr>\<close>

text \<open>
  \<^verbatim>\<open>/<ix:fraction[^>]*name="([^"]*)"[^>]*contextRef="([^"]*)"[^>]*>([^<]*)<\/ix:fraction>/gi\<close>
\<close>

definition fractionPattern :: regex where
  \<open>fractionPattern = \<lparr>icase = True, groups = 3, body =
     [Lit ''<ix:fraction'', Star (NotCh CHR ''>''),
      Lit ''name="'', Cap 1 [Star (NotCh CHR ''"'')], Lit ''"'', Star (NotCh CHR ''>''),
      Lit ''contextRef="'', Cap 2 [Star (NotCh CHR ''"'')], Lit ''"'', Star (NotCh CHR ''>''),
      Lit ''>'', Cap 3 [Star (NotCh CHR ''<'')], Lit ''</ix:fraction>'']\<rparr>\<close>

text \<open>
  \<^verbatim>\<open>/<ix:nonNumeric[^>]*name="([^"]*)"[^>]*contextRef="([^"]*)"[^>]*>([^<]*)<\/ix:nonNumeric>/gi\<close>
\<close>

definition nonNumericPattern :: regex where
  \<open>nonNumericPattern = \<lparr>icase = True, groups = 3, body =
     [Lit ''<ix:nonNumeric'', Star (NotCh CHR ''>''),
      Lit ''name="'', Cap 1 [Star (NotCh CHR ''"'')], Lit ''"'', Star (NotCh CHR ''>''),
      Lit ''contextRef="'', Cap 2 [Star (NotCh CHR ''"'')], Lit ''"'', Star (NotCh CHR ''>''),
      Lit ''>'', Cap 3 [Star (NotCh CHR ''<'')], Lit ''</ix:nonNumeric>'']\<rparr>\<close>

text \<open>\<^verbatim>\<open>a || b\<close> on optional strings.\<close>

definition or_str :: "string option \<Rightarrow> string option \<Rightarrow> string option" where
  "or_str a b = (if str_truthy a then a else b)"

text \<open>
  The body of the first loop: \<^verbatim>\<open>const [fullMatch, name, contextRef, unitRef, decimals,
  scale, value] = match\<close>, then the record with \<^verbatim>\<open>value: parseNumericValue(value, scale)\<close>
  and \<^verbatim>\<open>unitRef: unitRef || 'USD'\<close>.
\<close>

definition nonFractionFact :: "caps \<Rightarrow> fact" where
  "nonFractionFact m =
     (let name = grp m 1; (ns, localName) = parseXbrlName name;
          numericValue = parseNumericValue (grp m 6) (m ! 5)
      in \<lparr>namespace = ns, concept = localName, fvalue = JNum numericValue,
          valueRaw = grp m 6, contextRef = grp m 2,
          unitRef = or_str (m ! 3) (Some ''USD''), decimals = m ! 4, scale = m ! 5,
          fullTag = name, factType = ''nonFraction''\<rparr>)"

text \<open>The second loop: \<^verbatim>\<open>value: parseFloat(value) || value\<close> and \<^verbatim>\<open>unitRef: 'pure'\<close>.\<close>

definition fractionFact :: "caps \<Rightarrow> fact" where
  "fractionFact m =
     (let name = grp m 1; (ns, localName) = parseXbrlName name; v = grp m 3
      in \<lparr>namespace = ns, concept = localName,
          fvalue = (if num_truthy (parseFloat v) then JNum (parseFloat v) else JStr v),
          valueRaw = v, contextRef = grp m 2,
          unitRef = Some ''pure'', decimals = None, scale = None,
          fullTag = name, factType = ''fraction''\<rparr>)"

text \<open>The third loop: \<^verbatim>\<open>value: value.trim()\<close> and no unit.\<close>

definition nonNumericFact :: "caps \<Rightarrow> fact" where
  "nonNumericFact m =
     (let name = grp m 1; (ns, localName) = parseXbrlName name; v = grp m 3
      in \<lparr>namespace = ns, concept = localName, fvalue = JStr (trim v),
          valueRaw = v, contextRef = grp m 2,
          unitRef = None, decimals = None, scale = None,
          fullTag = name, factType = ''nonNumeric''\<rparr>)"

definition extractFactsFromIxbrl :: "string \<Rightarrow> fact list" where
  "extractFactsFromIxbrl htmlContent =
     map nonFractionFact (exec_all nonFractionPattern htmlContent) @
     map fractionFact (exec_all fractionPattern htmlContent) @
     map nonNumericFact (exec_all nonNumericPattern htmlContent)"

subsection \<open>Objects used as dictionaries\<close>

text \<open>
  The parser keeps contexts and dimensions in plain objects, created by \<^verbatim>\<open>{}\<close>, and reads
  them by \<^verbatim>\<open>object[key]\<close>.  Such a read returns the object's own entry when there is
  one, and otherwise looks the key up in \<^verbatim>\<open>Object.prototype\<close>, whose members are these;
  each of them is a function, or, for \<^verbatim>\<open>__proto__\<close>, the prototype object itself, and so
  truthy and not a string.
\<close>

definition objectPrototypeNames :: "string list" where
  "objectPrototypeNames =
     [''constructor'', ''__defineGetter__'', ''__defineSetter__'', ''hasOwnProperty'',
      ''__lookupGetter__'', ''__lookupSetter__'', ''isPrototypeOf'', ''propertyIsEnumerable'',
      ''toString'', ''valueOf'', ''__proto__'', ''toLocaleString'']"

datatype 'v lookup = Own 'v | Inherited string | Undefined

definition getProp :: "(string \<times> 'v) list \<Rightarrow> string \<Rightarrow> 'v lookup" where
  "getProp obj k =
     (case map_of obj k of
        Some v \<Rightarrow> Own v
      | None \<Rightarrow> if k \<in> set objectPrototypeNames then Inherited k else Undefined)"

text \<open>
  An assignment \<^verbatim>\<open>object[key] = value\<close> is \<^const>\<open>AList.update\<close>: a new key goes to the
  end, a key that is there keeps its place and takes the new value.  The key
  \<^verbatim>\<open>__proto__\<close> is the exception: the assignment calls the setter inherited from
  \<^verbatim>\<open>Object.prototype\<close>, which adds no entry; it replaces the prototype of the object
  when the value is an object and does nothing when the value is a string.
\<close>

datatype js_error = TypeError

subsection \<open>Context records\<close>

record period_info =
  ptype :: string
  instant :: "string option"
  startDate :: "string option"
  endDate :: "string option"

record entity_info =
  entity_identifier :: "string option"

record context_record =
  cid :: string
  period :: period_info
  entity :: entity_info
  dimensions :: "(string \<times> string) list"

definition instantPattern :: regex where
  "instantPattern = \<lparr>icase = False, groups = 1, body =
     [Lit ''<xbrli:instant>'', Cap 1 [Star (NotCh CHR ''<'')], Lit ''</xbrli:instant>'']\<rparr>"

definition startDatePattern :: regex where
  "startDatePattern = \<lparr>icase = False, groups = 1, body =
     [Lit ''<xbrli:startDate>'', Cap 1 [Star (NotCh CHR ''<'')], Lit ''</xbrli:startDate>'']\<rparr>"

definition endDatePattern :: regex where
  "endDatePattern = \<lparr>icase = False, groups = 1, body =
     [Lit ''<xbrli:endDate>'', Cap 1 [Star (NotCh CHR ''<'')], Lit ''</xbrli:endDate>'']\<rparr>"

text \<open>
  \<^verbatim>\<open>function extractPeriodFromContext(contextContent) {
    const instantMatch = contextContent.match(/<xbrli:instant>([^<]*)<\/xbrli:instant>/);
    const startDateMatch = contextContent.match(/<xbrli:startDate>([^<]*)<\/xbrli:startDate>/);
    const endDateMatch = contextContent.match(/<xbrli:endDate>([^<]*)<\/xbrli:endDate>/);
    if (instantMatch) {
      return { type: 'instant', instant: instantMatch[1] };
    } else if (startDateMatch && endDateMatch) {
      return { type: 'duration', startDate: startDateMatch[1], endDate: endDateMatch[1] };
    }
    return { type: 'unknown' };
  }\<close>
\<close>

definition extractPeriodFromContext :: "string \<Rightarrow> period_info" where
  "extractPeriodFromContext contextContent =
     (let instantMatch = rx_search instantPattern contextContent;
          startDateMatch = rx_search startDatePattern contextContent;
          endDateMatch = rx_search endDatePattern contextContent
      in if instantMatch \<noteq> None then
           \<lparr>ptype = ''instant'', instant = Some (grp (the instantMatch) 1),
            startDate = None, endDate = None\<rparr>
         else if startDateMatch \<noteq> None \<and> endDateMatch \<noteq> None then
           \<lparr>ptype = ''duration'', instant = None,
            startDate = Some (grp (the startDateMatch) 1),
            endDate = Some (grp (the endDateMatch) 1)\<rparr>
         else \<lparr>ptype = ''unknown'', instant = None, startDate = None, endDate = None\<rparr>)"

text \<open>
  A date marker in the text of a block: an opening tag, a date without \<open><\<close>, and the
  closing tag.  The three patterns above are instances of one shape.
\<close>

definition marker_at :: "string \<Rightarrow> string \<Rightarrow> string \<Rightarrow> string \<Rightarrow> bool" where
  "marker_at opening closing d c \<longleftrightarrow>
     (\<exists>pre post. c = pre @ opening @ d @ closing @ post \<and> CHR ''<'' \<notin> set d)"

definition has_marker :: "string \<Rightarrow> string \<Rightarrow> string \<Rightarrow> bool" where
  "has_marker opening closing c \<longleftrightarrow> (\<exists>d. marker_at opening closing d c)"

definition tagPattern :: "string \<Rightarrow> string \<Rightarrow> regex" where
  "tagPattern opening closing = \<lparr>icase = False, groups = 1, body =
     [Lit opening, Cap 1 [Star (NotCh CHR ''<'')], Lit closing]\<rparr>"

text \<open>\<^verbatim>\<open>/<xbrli:identifier[^>]*>([^<]*)<\/xbrli:identifier>/\<close>; the entity object has the one
  field \<^verbatim>\<open>identifier\<close>, \<^verbatim>\<open>null\<close> when there is no match.\<close>

definition identifierPattern :: regex where
  "identifierPattern = \<lparr>icase = False, groups = 1, body =
     [Lit ''<xbrli:identifier'', Star (NotCh CHR ''>''), Lit ''>'',
      Cap 1 [Star (NotCh CHR ''<'')], Lit ''</xbrli:identifier>'']\<rparr>"

definition extractEntityFromContext :: "string \<Rightarrow> entity_info" where
  "extractEntityFromContext contextContent =
     \<lparr>entity_identifier =
        (case rx_search identifierPattern contextContent of
           None \<Rightarrow> None | Some m \<Rightarrow> Some (grp m 1))\<rparr>"

text \<open>
  \<^verbatim>\<open>/<xbrldi:explicitMember[^>]*dimension="([^"]*)"[^>]*>([^<]*)<\/xbrldi:explicitMember>/g\<close>,
  each match assigned by \<^verbatim>\<open>dimensions[dimension] = member\<close>.
\<close>

definition memberPattern :: regex where
  \<open>memberPattern = \<lparr>icase = False, groups = 2, body =
     [Lit ''<xbrldi:explicitMember'', Star (NotCh CHR ''>''),
      Lit ''dimension="'', Cap 1 [Star (NotCh CHR ''"'')], Lit ''"'', Star (NotCh CHR ''>''),
      Lit ''>'', Cap 2 [Star (NotCh CHR ''<'')], Lit ''</xbrldi:explicitMember>'']\<rparr>\<close>

definition assignMember :: "(string \<times> string) list \<Rightarrow> caps \<Rightarrow> (string \<times> string) list" where
  "assignMember dims m =
     (if grp m 1 = ''__proto__'' then dims else AList.update (grp m 1) (grp m 2) dims)"

definition extractDimensionsFromContext :: "string \<Rightarrow> (string \<times> string) list" where
  "extractDimensionsFromContext contextContent =
     foldl assignMember [] (exec_all memberPattern contextContent)"

text \<open>
  \<^verbatim>\<open>/<ix:context[^>]*id="([^"]*)"[^>]*>(.*?)<\/ix:context>/gs\<close> and
  \<^verbatim>\<open>/<xbrli:context[^>]*id="([^"]*)"[^>]*>(.*?)<\/xbrli:context>/gs\<close>
\<close>

definition contextPattern :: regex where
  \<open>contextPattern = \<lparr>icase = False, groups = 2, body =
     [Lit ''<ix:context'', Star (NotCh CHR ''>''),
      Lit ''id="'', Cap 1 [Star (NotCh CHR ''"'')], Lit ''"'', Star (NotCh CHR ''>''),
      Lit ''>'', Cap 2 [LazyStar AnyCh], Lit ''</ix:context>'']\<rparr>\<close>

definition xbrliContextPattern :: regex where
  \<open>xbrliContextPattern = \<lparr>icase = False, groups = 2, body =
     [Lit ''<xbrli:context'', Star (NotCh CHR ''>''),
      Lit ''id="'', Cap 1 [Star (NotCh CHR ''"'')], Lit ''"'', Star (NotCh CHR ''>''),
      Lit ''>'', Cap 2 [LazyStar AnyCh], Lit ''</xbrli:context>'']\<rparr>\<close>

text \<open>The body of both loops of \<^verbatim>\<open>extractContextsFromIxbrl\<close>:
  \<^verbatim>\<open>contexts[contextId] = { id: contextId, period: ..., entity: ..., dimensions: ... }\<close>.\<close>

definition contextRecord :: "caps \<Rightarrow> context_record" where
  "contextRecord m =
     \<lparr>cid = grp m 1,
      period = extractPeriodFromContext (grp m 2),
      entity = extractEntityFromContext (grp m 2),
      dimensions = extractDimensionsFromContext (grp m 2)\<rparr>"

text \<open>
  The object that \<^verbatim>\<open>extractContextsFromIxbrl\<close> fills: its own entries, and the record
  that an assignment to \<^verbatim>\<open>__proto__\<close> has made its prototype, if there was one.
\<close>

record contexts_object =
  entries :: "(string \<times> context_record) list"
  prototype_record :: "context_record option"

definition emptyContexts :: contexts_object where
  "emptyContexts = \<lparr>entries = [], prototype_record = None\<rparr>"

definition assignContext :: "contexts_object \<Rightarrow> caps \<Rightarrow> contexts_object" where
  "assignContext contexts m =
     (if grp m 1 = ''__proto__'' then contexts\<lparr>prototype_record := Some (contextRecord m)\<rparr>
      else contexts\<lparr>entries := AList.update (grp m 1) (contextRecord m) (entries contexts)\<rparr>)"

definition extractContextsFromIxbrl :: "string \<Rightarrow> contexts_object" where
  "extractContextsFromIxbrl htmlContent =
     foldl assignContext
       (foldl assignContext emptyContexts (exec_all contextPattern htmlContent))
       (exec_all xbrliContextPattern htmlContent)"

subsection \<open>The fact matcher\<close>

record valueRange =
  range_min :: jsnum
  range_max :: jsnum

text \<open>
  The search criteria; every field is optional.  The exact value is a string, as the
  function's documentation and the tool's schema declare it, and the bounds of a range
  are numbers.
\<close>

record criteria =
  c_concept :: "string option"
  c_value :: "string option"
  c_valueRange :: "valueRange option"
  c_dimensions :: "(string \<times> string) list option"

text \<open>
  The parsed data.  The contexts are a plain object with the prototype
  \<^verbatim>\<open>Object.prototype\<close>, given by its own entries; the dimensions of a criteria are its
  entries in the order of \<^verbatim>\<open>Object.entries\<close>.
\<close>

record xbrlData =
  facts :: "fact list"
  contexts :: "(string \<times> context_record) list"

text \<open>
  What \<^verbatim>\<open>contexts[fact.contextRef]\<close> is when it is truthy: a context record of the
  object, or the member of \<^verbatim>\<open>Object.prototype\<close> of that name, which has neither a
  \<^verbatim>\<open>period\<close> nor a \<^verbatim>\<open>dimensions\<close> property.
\<close>

datatype context_value = ContextRecord context_record | InheritedMember string

fun contextPeriod :: "context_value \<Rightarrow> period_info option" where
  "contextPeriod (ContextRecord r) = Some (period r)"
| "contextPeriod (InheritedMember n) = None"

fun contextDimensions :: "context_value \<Rightarrow> (string \<times> string) list option" where
  "contextDimensions (ContextRecord r) = Some (dimensions r)"
| "contextDimensions (InheritedMember n) = None"

text \<open>A result: the fields of the fact (\<^verbatim>\<open>...fact\<close>) and those taken from its context;
  \<open>None\<close> is \<^verbatim>\<open>undefined\<close>.\<close>

record matched_fact =
  m_fact :: fact
  m_context :: context_value
  m_period :: "period_info option"
  periodType :: "string option"
  periodStart :: "string option"
  periodEnd :: "string option"
  m_dimensions :: "(string \<times> string) list option"

text \<open>
  \<^verbatim>\<open>if (criteria.concept &&
      !fact.concept.toLowerCase().includes(criteria.concept.toLowerCase())) continue;\<close>
\<close>

definition conceptCheck :: "criteria \<Rightarrow> fact \<Rightarrow> bool" where
  "conceptCheck crit f =
     (\<not> (str_truthy (c_concept crit) \<and>
         \<not> str_includes (toLowerCase (concept f)) (toLowerCase (the (c_concept crit)))))"

text \<open>
  \<^verbatim>\<open>if (criteria.value && fact.value.toString() !== criteria.value.toString()) continue;\<close>
\<close>

definition valueCheck :: "criteria \<Rightarrow> fact \<Rightarrow> bool" where
  "valueCheck crit f =
     (\<not> (str_truthy (c_value crit) \<and> toString (fvalue f) \<noteq> the (c_value crit)))"

text \<open>
  \<^verbatim>\<open>if (criteria.valueRange) {
    const numValue = typeof fact.value === 'number' ? fact.value : parseFloat(fact.value);
    if (isNaN(numValue) || numValue < criteria.valueRange.min ||
        numValue > criteria.valueRange.max) continue;
  }\<close>
\<close>

fun numValue :: "jsval \<Rightarrow> jsnum" where
  "numValue (JNum n) = n"
| "numValue (JStr s) = parseFloat s"

definition rangeCheck :: "criteria \<Rightarrow> fact \<Rightarrow> bool" where
  "rangeCheck crit f =
     (case c_valueRange crit of
        None \<Rightarrow> True
      | Some r \<Rightarrow>
          \<not> (isNaN (numValue (fvalue f)) \<or> js_lt (numValue (fvalue f)) (range_min r) \<or>
             js_gt (numValue (fvalue f)) (range_max r)))"

text \<open>
  \<^verbatim>\<open>for (const [dimName, dimValue] of Object.entries(criteria.dimensions)) {
    if (!context.dimensions[dimName] ||
        !context.dimensions[dimName].toLowerCase().includes(dimValue.toLowerCase())) {
      dimensionMatch = false; break;
    }
  }\<close>
  The first argument is \<^verbatim>\<open>context.dimensions\<close>.  Reading a key of \<^verbatim>\<open>undefined\<close> throws,
  and so does the call of \<^verbatim>\<open>toLowerCase\<close> on an inherited member, which has no such
  method.  The result is the final value of \<^verbatim>\<open>dimensionMatch\<close>.
\<close>

fun dimensionLoop :: "(string \<times> string) list option \<Rightarrow> (string \<times> string) list \<Rightarrow> js_error + bool" where
  "dimensionLoop dims [] = Inr True"
| "dimensionLoop dims ((dimName, dimValue) # rest) =
     (case dims of
        None \<Rightarrow> Inl TypeError
      | Some d \<Rightarrow>
          (case getProp d dimName of
             Undefined \<Rightarrow> Inr False
           | Inherited n \<Rightarrow> Inl TypeError
           | Own member \<Rightarrow>
               if member = [] then Inr False
               else if \<not> str_includes (toLowerCase member) (toLowerCase dimValue) then Inr False
               else dimensionLoop dims rest))"

text \<open>
  \<^verbatim>\<open>matchingFacts.push({ ...fact, context: context, period: context.period,
    periodType: context.period?.type,
    periodStart: context.period?.startDate || context.period?.instant,
    periodEnd: context.period?.endDate || context.period?.instant,
    dimensions: context.dimensions });\<close>
\<close>

definition matchedFact :: "fact \<Rightarrow> context_value \<Rightarrow> matched_fact" where
  "matchedFact f context =
     \<lparr>m_fact = f, m_context = context, m_period = contextPeriod context,
      periodType = map_option ptype (contextPeriod context),
      periodStart =
        (case contextPeriod context of
           None \<Rightarrow> None | Some p \<Rightarrow> or_str (startDate p) (instant p)),
      periodEnd =
        (case contextPeriod context of
           None \<Rightarrow> None | Some p \<Rightarrow> or_str (endDate p) (instant p)),
      m_dimensions = contextDimensions context\<rparr>"

text \<open>
  The end of the loop body, once the context is there:
  \<^verbatim>\<open>if (criteria.dimensions) { ... if (!dimensionMatch) { continue; } }
  matchingFacts.push({ ... });\<close>
  The result is \<open>Inr None\<close> for a \<^verbatim>\<open>continue\<close>, \<open>Inr (Some r)\<close> for a \<^verbatim>\<open>push\<close> and
  \<open>Inl\<close> for an exception.
\<close>

definition filterAndPush :: "criteria \<Rightarrow> fact \<Rightarrow> context_value \<Rightarrow> js_error + matched_fact option" where
  "filterAndPush crit f context =
     (case c_dimensions crit of
        None \<Rightarrow> Inr (Some (matchedFact f context))
      | Some ds \<Rightarrow>
          (case dimensionLoop (contextDimensions context) ds of
             Inl e \<Rightarrow> Inl e
           | Inr ok \<Rightarrow> if \<not> ok then Inr None else Inr (Some (matchedFact f context))))"

text \<open>
  The body of the loop for one fact, with
  \<^verbatim>\<open>const context = contexts[fact.contextRef];
  if (!context) { continue; }\<close>
  An inherited member is truthy, so the loop goes on with it as the context.
\<close>

definition matchFact :: "(string \<times> context_record) list \<Rightarrow> criteria \<Rightarrow> fact \<Rightarrow> js_error + matched_fact option" where
  "matchFact cs crit f =
     (if \<not> conceptCheck crit f then Inr None
      else if \<not> valueCheck crit f then Inr None
      else if \<not> rangeCheck crit f then Inr None
      else
        (case getProp cs (contextRef f) of
           Undefined \<Rightarrow> Inr None
         | Own r \<Rightarrow> filterAndPush crit f (ContextRecord r)
         | Inherited n \<Rightarrow> filterAndPush crit f (InheritedMember n)))"

text \<open>The loop over the facts; an exception ends it and the call.\<close>

fun matchFacts :: "(string \<times> context_record) list \<Rightarrow> criteria \<Rightarrow> fact list \<Rightarrow> js_error + matched_fact list" where
  "matchFacts cs crit [] = Inr []"
| "matchFacts cs crit (f # fs) =
     (case matchFact cs crit f of
        Inl e \<Rightarrow> Inl e
      | Inr None \<Rightarrow> matchFacts cs crit fs
      | Inr (Some r) \<Rightarrow>
          (case matchFacts cs crit fs of
             Inl e \<Rightarrow> Inl e
           | Inr rs \<Rightarrow> Inr (r # rs)))"

definition findDimensionalFacts :: "xbrlData \<Rightarrow> criteria \<Rightarrow> js_error + matched_fact list" where
  "findDimensionalFacts xbrl crit = matchFacts (contexts xbrl) crit (facts xbrl)"

subsection \<open>Example documents and criteria\<close>

text \<open>A numeric-fraction annotation with a scale attribute, and one without attributes
  after the context reference.\<close>

definition scaledMarkup :: string where
  \<open>scaledMarkup = ''<ix:nonFraction name="us-gaap:Revenue" contextRef="c1" scale="6">638</ix:nonFraction>''\<close>


definition ratioMarkup :: string where
  \<open>ratioMarkup = ''<ix:fraction name="a:Ratio" contextRef="c1">n/a</ix:fraction>''\<close>

text \<open>Two context blocks with one identifier, the legacy one first in the text; two
  inline blocks with one identifier; and a block with the identifier \<^verbatim>\<open>__proto__\<close>.\<close>

definition legacyBlock :: string where
  \<open>legacyBlock = ''<xbrli:context id="c"><xbrli:instant>2025-03-30</xbrli:instant></xbrli:context>''\<close>

definition inlineBlock :: string where
  \<open>inlineBlock = ''<ix:context id="c"></ix:context>''\<close>

definition twoContextsMarkup :: string where
  "twoContextsMarkup = legacyBlock @ inlineBlock"

definition datedBlock :: string where
  \<open>datedBlock = ''<ix:context id="c"><xbrli:instant>2025-03-30</xbrli:instant></ix:context>''\<close>

definition repeatedMarkup :: string where
  "repeatedMarkup = inlineBlock @ datedBlock"

definition protoMarkup :: string where
  \<open>protoMarkup = ''<ix:context id="__proto__"></ix:context>''\<close>




definition geoContext :: context_record where
  "geoContext =
     \<lparr>cid = ''c1'',
      period = \<lparr>ptype = ''duration'', instant = None,
                startDate = Some ''2025-01-01'', endDate = Some ''2025-03-30''\<rparr>,
      entity = \<lparr>entity_identifier = Some ''0000200406''\<rparr>,
      dimensions = [(''srt:StatementGeographicalAxis'', ''us-gaap:NonUsMember'')]\<rparr>"

definition revenueFact :: fact where
  "revenueFact =
     \<lparr>namespace = ''us-gaap'', concept = ''Revenue'', fvalue = JNum (Num 638000000),
      valueRaw = ''638'', contextRef = ''c1'', unitRef = Some ''USD'', decimals = None,
      scale = Some ''6'', fullTag = ''us-gaap:Revenue'', factType = ''nonFraction''\<rparr>"

definition yearFact :: fact where
  "yearFact =
     \<lparr>namespace = ''dei'', concept = ''DocumentFiscalYearFocus'', fvalue = JStr ''2023'',
      valueRaw = ''2023'', contextRef = ''c1'', unitRef = None, decimals = None,
      scale = None, fullTag = ''dei:DocumentFiscalYearFocus'', factType = ''nonNumeric''\<rparr>"

definition orphanFact :: fact where
  "orphanFact = revenueFact\<lparr>contextRef := ''c2''\<rparr>"

text \<open>A context with two axes and a fact that refers to it.\<close>

definition segmentContext :: context_record where
  "segmentContext =
     geoContext\<lparr>cid := ''c3'',
       dimensions := [(''srt:StatementGeographicalAxis'', ''us-gaap:NonUsMember''),
                      (''us-gaap:StatementBusinessSegmentsAxis'', ''jnj:MedTechMember'')]\<rparr>"

definition segmentFact :: fact where
  "segmentFact = revenueFact\<lparr>contextRef := ''c3''\<rparr>"

text \<open>A fact whose context reference is the name of a member of \<^verbatim>\<open>Object.prototype\<close>.\<close>

definition constructorFact :: fact where
  "constructorFact = revenueFact\<lparr>contextRef := ''constructor''\<rparr>"

definition noCriteria :: criteria where
  "noCriteria = \<lparr>c_concept = None, c_value = None, c_valueRange = None, c_dimensions = None\<rparr>"

definition emptyValueCriteria :: criteria where
  "emptyValueCriteria = noCriteria\<lparr>c_value := Some []\<rparr>"

definition exactCriteria :: criteria where
  "exactCriteria = noCriteria\<lparr>c_value := Some ''638000000''\<rparr>"

definition revenueRange :: criteria where
  "revenueRange =
     noCriteria\<lparr>c_valueRange := Some \<lparr>range_min = Num 600000000, range_max = Num 700000000\<rparr>\<rparr>"

definition yearRange :: criteria where
  "yearRange = noCriteria\<lparr>c_valueRange := Some \<lparr>range_min = Num 2000, range_max = Num 3000\<rparr>\<rparr>"

definition geoCriteria :: criteria where
  "geoCriteria = noCriteria\<lparr>c_dimensions := Some [(''srt:StatementGeographicalAxis'', ''NONUS'')]\<rparr>"

definition pharmaCriteria :: criteria where
  "pharmaCriteria =
     noCriteria\<lparr>c_dimensions := Some [(''srt:StatementGeographicalAxis'', ''nonus''),
                                      (''us-gaap:StatementBusinessSegmentsAxis'', ''pharma'')]\<rparr>"

definition constructorAxisCriteria :: criteria where
  "constructorAxisCriteria = noCriteria\<lparr>c_dimensions := Some [(''constructor'', ''x'')]\<rparr>"

definition twoAxisCriteria :: criteria where
  "twoAxisCriteria =
     noCriteria\<lparr>c_dimensions := Some [(''srt:StatementGeographicalAxis'', ''nonus''),
                                      (''us-gaap:StatementBusinessSegmentsAxis'', ''medtech'')]\<rparr>"

text \<open>What the extractor returns for \<^const>\<open>scaledMarkup\<close> and for \<^const>\<open>ratioMarkup\<close>.\<close>

definition unscaledFact :: fact where
  "unscaledFact =
     \<lparr>namespace = ''us-gaap'', concept = ''Revenue'', fvalue = JNum (Num 638),
      valueRaw = ''638'', contextRef = ''c1'', unitRef = Some ''USD'', decimals = None,
      scale = None, fullTag = ''us-gaap:Revenue'', factType = ''nonFraction''\<rparr>"

definition ratioFact :: fact where
  "ratioFact =
     \<lparr>namespace = ''a'', concept = ''Ratio'', fvalue = JStr ''n/a'',
      valueRaw = ''n/a'', contextRef = ''c1'', unitRef = Some ''pure'', decimals = None,
      scale = None, fullTag = ''a:Ratio'', factType = ''fraction''\<rparr>"

text \<open>The groups of a numeric-fraction match and of a ratio-fraction match whose inner
  text is not a number.\<close>

definition unparsableCaps :: caps where
  "unparsableCaps = [Some [], Some ''a:Shares'', Some ''c1'', None, None, None, Some ''n/a'']"

definition unparsableRatioCaps :: caps where
  "unparsableRatioCaps = [Some [], Some ''a:Ratio'', Some ''c1'', Some ''n/a'']"

text \<open>The content of three context blocks.\<close>

definition instantBlock :: string where
  "instantBlock = ''<xbrli:instant>2025-03-30</xbrli:instant>''"

definition durationBlock :: string where
  "durationBlock = ''<xbrli:startDate>2025-01-01</xbrli:startDate><xbrli:endDate>2025-03-30</xbrli:endDate>''"

definition startOnlyBlock :: string where
  "startOnlyBlock = ''<xbrli:startDate>2025-01-01</xbrli:startDate>''"



definition inlineCaps :: caps where
  "inlineCaps = [Some inlineBlock, Some ''c'', Some []]"

definition legacyCaps :: caps where
  "legacyCaps = [Some legacyBlock, Some ''c'', Some ''<xbrli:instant>2025-03-30</xbrli:instant>'']"

definition datedCaps :: caps where
  "datedCaps = [Some datedBlock, Some ''c'', Some ''<xbrli:instant>2025-03-30</xbrli:instant>'']"

text \<open>The number of entries of an association list under one key.\<close>

definition key_count :: "'k \<Rightarrow> ('k \<times> 'v) list \<Rightarrow> nat" where
  "key_count k al = length (filter (\<lambda>kv. fst kv = k) al)"

text \<open>The criteria of the scenario with the scaled annotation: a concept and a range
  around 638 million.\<close>

definition scenarioCriteria :: criteria where
  "scenarioCriteria =
     noCriteria\<lparr>c_concept := Some ''revenue'',
       c_valueRange := Some \<lparr>range_min = Num 600000000, range_max = Num 700000000\<rparr>\<rparr>"

subsection \<open>Properties of the string helpers\<close>

lemma str_split_not_Nil: "str_split sep s \<noteq> []"
  by (induction s) (auto split: list.splits)

lemma length_str_split: "length (str_split sep s) = Suc (count_list s sep)"
proof (induction s)
  case Nil
  show ?case by simp
next
  case (Cons c cs)
  obtain p ps where ps: "str_split sep cs = p # ps"
    using str_split_not_Nil [of sep cs] by (cases "str_split sep cs") auto
  with Cons show ?case by auto
qed

text \<open>\<^const>\<open>toLowerChar\<close> maps the upper-case letters to the lower-case ones and leaves
  every other character as it is.\<close>

lemma toLowerChar_letters:
  "map toLowerChar ''ABCDEFGHIJKLMNOPQRSTUVWXYZ'' = ''abcdefghijklmnopqrstuvwxyz''"
  by simp

lemma toLowerChar_other:
  assumes "c \<notin> set ''ABCDEFGHIJKLMNOPQRSTUVWXYZ''"
  shows "toLowerChar c = c"
proof (cases c)
  case (Char b0 b1 b2 b3 b4 b5 b6 b7)
  show ?thesis
  proof (cases "\<not> b7 \<and> b6 \<and> \<not> b5")
    case False
    with Char show ?thesis by auto
  next
    case True
    with assms Char show ?thesis
      by (cases b0; cases b1; cases b2; cases b3; cases b4; simp)
  qed
qed

lemma strip_prefix_iff: "strip_prefix p s = Some r \<longleftrightarrow> s = p @ r"
  by (induction p s rule: strip_prefix.induct) auto


subsection \<open>Concept names\<close>

text \<open>
  C10.  A concept name with two or more \<open>:\<close> separators does not split into exactly two
  parts, so the parser returns the sentinel namespace \<open>default\<close> together with the whole
  input string, separators included.
\<close>

theorem parseXbrlName_many_separators:
  "2 \<le> count_list name CHR '':'' \<Longrightarrow> parseXbrlName name = (''default'', name)"
  by (simp add: parseXbrlName_def length_str_split)

theorem parseXbrlName_many_separators_witness:
  "2 \<le> count_list ''a:b:c'' CHR '':'' \<and> parseXbrlName ''a:b:c'' = (''default'', ''a:b:c'')"
  using parseXbrlName_many_separators [of "''a:b:c''"] by simp

subsection \<open>Matches are not empty\<close>

text \<open>A literal matches a piece of the text that is the literal up to case.\<close>

lemma lit_prefix_piece:
  "lit_prefix ic l s = Some r \<Longrightarrow> \<exists>p. s = p @ r \<and> length p = length l \<and> toLowerCase p = toLowerCase l"
proof (induction ic l s rule: lit_prefix.induct)
  case (1 ic s)
  then show ?case by (simp add: toLowerCase_def)
next
  case (2 ic p ps)
  then show ?case by simp
next
  case (3 ic p ps c cs)
  from 3(2) have e: "ch_eq ic p c" and m: "lit_prefix ic ps cs = Some r"
    by (auto split: if_splits)
  from 3(1) [OF e m] obtain q where q: "cs = q @ r" "length q = length ps"
    "toLowerCase q = toLowerCase ps" by blast
  from e have "toLowerChar c = toLowerChar p"
    by (auto simp: ch_eq_def split: if_splits)
  with q have "c # cs = (c # q) @ r \<and> length (c # q) = length (p # ps) \<and>
      toLowerCase (c # q) = toLowerCase (p # ps)"
    by (simp add: toLowerCase_def)
  then show ?case by blast
qed

lemma lit_prefix_length: "lit_prefix ic l s = Some r \<Longrightarrow> length s = length l + length r"
  using lit_prefix_piece [of ic l s r] by auto

text \<open>The matcher only moves forward in the text: what it leaves is an end of the text.\<close>

lemma rmatch_suffix: "rmatch ic ts s cs = Some (r, cs') \<Longrightarrow> \<exists>mid. s = mid @ r"
proof (induction ic ts s cs arbitrary: r cs' rule: rmatch.induct)
  case (1 ic s cs)
  from 1 show ?case by simp
next
  case (2 ic n s0 ts s cs)
  from 2(2) have "rmatch ic ts s (cs[n := Some (take (length s0 - length s) s0)]) = Some (r, cs')"
    by simp
  from 2(1) [OF this] show ?case .
next
  case (3 ic l ts s cs)
  from 3(2) obtain s' where s': "lit_prefix ic l s = Some s'"
    and m: "rmatch ic ts s' cs = Some (r, cs')"
    by (cases "lit_prefix ic l s") auto
  from 3(1) [OF s' m] obtain mid where "s' = mid @ r" by blast
  moreover from lit_prefix_piece [OF s'] obtain p where "s = p @ s'" by blast
  ultimately have "s = (p @ mid) @ r" by simp
  then show ?case by blast
next
  case (4 ic k ts s cs)
  show ?case
  proof (cases s)
    case Nil
    from 4(5) Nil have "rmatch ic ts s cs = Some (r, cs')" by simp
    from 4(1) [OF Nil this] show ?thesis .
  next
    case (Cons c t)
    show ?thesis
    proof (cases "cls_has ic k c")
      case False
      from 4(5) Cons False have "rmatch ic ts s cs = Some (r, cs')" by simp
      from 4(4) [OF Cons False this] show ?thesis .
    next
      case True
      show ?thesis
      proof (cases "rmatch ic (Do (Star k) # ts) t cs")
        case None
        from 4(5) Cons True None have "rmatch ic ts s cs = Some (r, cs')" by simp
        from 4(3) [OF Cons True None this] show ?thesis .
      next
        case (Some res)
        from 4(5) Cons True Some have "rmatch ic (Do (Star k) # ts) t cs = Some (r, cs')"
          by simp
        from 4(2) [OF Cons True this] obtain mid where "t = mid @ r" by blast
        with Cons have "s = (c # mid) @ r" by simp
        then show ?thesis by blast
      qed
    qed
  qed
next
  case (5 ic k ts s cs)
  show ?case
  proof (cases "rmatch ic ts s cs")
    case (Some res)
    from 5(3) Some have "rmatch ic ts s cs = Some (r, cs')" by simp
    from 5(1) [OF this] show ?thesis .
  next
    case None
    from 5(3) None obtain c t where s: "s = c # t" and k: "cls_has ic k c"
      and m: "rmatch ic (Do (LazyStar k) # ts) t cs = Some (r, cs')"
      by (cases s) (auto split: if_splits)
    from 5(2) [OF None s k m] obtain mid where "t = mid @ r" by blast
    with s have "s = (c # mid) @ r" by simp
    then show ?thesis by blast
  qed
next
  case (6 ic n rs ts s cs)
  from 6(2) have "rmatch ic (map Do rs @ Close n s # ts) s cs = Some (r, cs')" by simp
  from 6(1) [OF this] show ?case .
next
  case (7 ic rs ts s cs)
  show ?case
  proof (cases "rmatch ic (map Do rs @ ts) s cs")
    case (Some res)
    from 7(3) Some have "rmatch ic (map Do rs @ ts) s cs = Some (r, cs')" by simp
    from 7(1) [OF this] show ?thesis .
  next
    case None
    from 7(3) None have "rmatch ic ts s cs = Some (r, cs')" by simp
    from 7(2) [OF None this] show ?thesis .
  qed
qed

lemma rmatch_length: "rmatch ic ts s cs = Some (r, cs') \<Longrightarrow> length r \<le> length s"
  using rmatch_suffix [of ic ts s cs r cs'] by auto

text \<open>A pattern that starts with literal text, as every pattern of the parser does, has
  no empty match, and \<^const>\<open>exec_all\<close> goes on after each match.\<close>

lemma rx_at_consumes:
  assumes "body re = Lit (c # l) # rs" and "rx_at re s = Some (r, m)"
  shows "length r < length s"
proof -
  from assms obtain s' where s': "lit_prefix (icase re) (c # l) s = Some s'"
    and m: "rmatch (icase re) (map Do rs @ [Close 0 s]) s' (replicate (Suc (groups re)) None) = Some (r, m)"
    by (auto simp: rx_at_def split: option.splits)
  from rmatch_length [OF m] lit_prefix_length [OF s'] show ?thesis by simp
qed

lemma exec_all_step:
  assumes "body re = Lit (c # l) # rs"
  shows "exec_all re s =
     (case rx_at re s of
        Some (rest, caps) \<Rightarrow> caps # exec_all re rest
      | None \<Rightarrow> (case s of [] \<Rightarrow> [] | c # r \<Rightarrow> exec_all re r))"
proof (cases "rx_at re s")
  case None
  then show ?thesis by (subst exec_all.simps) simp
next
  case (Some p)
  obtain rest caps where p: "p = (rest, caps)" by (cases p)
  with Some rx_at_consumes [OF assms] have "length rest < length s" by simp
  with Some p show ?thesis by (subst exec_all.simps) simp
qed

lemma parser_patterns_start_with_text:
  "\<forall>re \<in> set [nonFractionPattern, fractionPattern, nonNumericPattern, memberPattern,
      contextPattern, xbrliContextPattern]. \<exists>c l rs. body re = Lit (c # l) # rs"
  by (simp add: nonFractionPattern_def fractionPattern_def nonNumericPattern_def
      memberPattern_def contextPattern_def xbrliContextPattern_def)

subsection \<open>The matching loop\<close>

text \<open>When the loop ends without an exception, the results are the pushes of the single
  facts, in their order.\<close>

lemma matchFacts_results:
  "matchFacts cs crit fs = Inr rs \<Longrightarrow>
     set rs = {r. \<exists>f \<in> set fs. matchFact cs crit f = Inr (Some r)}"
proof (induction fs arbitrary: rs)
  case Nil
  then show ?case by simp
next
  case (Cons f fs)
  show ?case
  proof (cases "matchFact cs crit f")
    case (Inl e)
    with Cons.prems show ?thesis by simp
  next
    case (Inr res)
    show ?thesis
    proof (cases res)
      case None
      with Inr Cons.prems have "matchFacts cs crit fs = Inr rs" by simp
      from Cons.IH [OF this] Inr None show ?thesis by auto
    next
      case (Some r)
      with Inr Cons.prems obtain rs' where rs': "matchFacts cs crit fs = Inr rs'" "rs = r # rs'"
        by (cases "matchFacts cs crit fs") auto
      from Cons.IH [OF rs'(1)] rs'(2) Inr Some show ?thesis by auto
    qed
  qed
qed

lemma filterAndPush_result:
  assumes "filterAndPush crit f context = Inr (Some r)"
  shows "r = matchedFact f context"
    and "c_dimensions crit = Some ds \<Longrightarrow> dimensionLoop (contextDimensions context) ds = Inr True"
  using assms by (auto simp: filterAndPush_def split: option.splits sum.splits if_splits)

text \<open>Every result passed the three checks on its fact, and its context is what the
  context reference of the fact reads in the contexts.\<close>

lemma matchFact_result:
  assumes "matchFact cs crit f = Inr (Some r)"
  shows "conceptCheck crit f \<and> valueCheck crit f \<and> rangeCheck crit f \<and> m_fact r = f \<and>
         (getProp cs (contextRef f) = Own ctx \<longrightarrow> m_context r = ContextRecord ctx) \<and>
         (getProp cs (contextRef f) = Inherited n \<longrightarrow> m_context r = InheritedMember n) \<and>
         getProp cs (contextRef f) \<noteq> Undefined \<and>
         m_dimensions r = contextDimensions (m_context r) \<and>
         (\<forall>ds. c_dimensions crit = Some ds \<longrightarrow>
            dimensionLoop (contextDimensions (m_context r)) ds = Inr True)"
proof -
  from assms have c: "conceptCheck crit f" "valueCheck crit f" "rangeCheck crit f"
    by (auto simp: matchFact_def split: if_splits)
  show ?thesis
  proof (cases "getProp cs (contextRef f)")
    case (Own x)
    with assms c have p: "filterAndPush crit f (ContextRecord x) = Inr (Some r)"
      by (simp add: matchFact_def)
    from filterAndPush_result [OF p] c Own show ?thesis by (auto simp: matchedFact_def)
  next
    case (Inherited x)
    with assms c have p: "filterAndPush crit f (InheritedMember x) = Inr (Some r)"
      by (simp add: matchFact_def)
    from filterAndPush_result [OF p] c Inherited show ?thesis by (auto simp: matchedFact_def)
  next
    case Undefined
    with assms c show ?thesis by (simp add: matchFact_def)
  qed
qed

lemma result_checked:
  assumes "findDimensionalFacts xbrl crit = Inr rs" and "r \<in> set rs"
  shows "\<exists>f \<in> set (facts xbrl). matchFact (contexts xbrl) crit f = Inr (Some r) \<and> m_fact r = f \<and>
           conceptCheck crit f \<and> valueCheck crit f \<and> rangeCheck crit f"
proof -
  from assms obtain f where f: "f \<in> set (facts xbrl)"
    "matchFact (contexts xbrl) crit f = Inr (Some r)"
    using matchFacts_results [of "contexts xbrl" crit "facts xbrl" rs]
    by (auto simp: findDimensionalFacts_def)
  with matchFact_result [OF f(2)] show ?thesis by blast
qed

text \<open>A fact at which the loop continues leaves the outcome of the call as it is
  without that fact.\<close>

lemma matchFacts_skip:
  assumes "matchFact cs crit f = Inr None"
  shows "matchFacts cs crit (pre @ f # post) = matchFacts cs crit (pre @ post)"
proof (induction pre)
  case Nil
  from assms show ?case by simp
next
  case (Cons a pre)
  then show ?case by (simp split: sum.splits option.splits)
qed

text \<open>The example facts and what they evaluate to.\<close>

lemma example_refs:
  "contextRef revenueFact = ''c1''" "contextRef yearFact = ''c1''" "contextRef orphanFact = ''c2''"
  "contextRef segmentFact = ''c3''" "contextRef constructorFact = ''constructor''"
  by (simp_all add: revenueFact_def yearFact_def orphanFact_def segmentFact_def
      constructorFact_def)

lemma example_values:
  "toString (fvalue revenueFact) = ''638000000''" "toString (fvalue yearFact) = ''2023''"
  "numValue (fvalue revenueFact) = Num 638000000" "numValue (fvalue yearFact) = Num 2023"
  by code_simp+

lemma example_lookups:
  "getProp [(''c1'', geoContext)] ''c1'' = Own geoContext"
  "getProp [(''c1'', geoContext)] ''c2'' = Undefined"
  "getProp [(''c1'', geoContext)] ''constructor'' = Inherited ''constructor''"
  "getProp [(''c1'', geoContext), (''c3'', segmentContext)] ''c1'' = Own geoContext"
  "getProp [(''c1'', geoContext), (''c3'', segmentContext)] ''c3'' = Own segmentContext"
  "getProp ([] :: (string \<times> context_record) list) ''constructor'' = Inherited ''constructor''"
  by (simp_all add: getProp_def objectPrototypeNames_def)

lemma example_no_filter:
  "conceptCheck noCriteria f" "valueCheck noCriteria f" "rangeCheck noCriteria f"
  "filterAndPush noCriteria f context = Inr (Some (matchedFact f context))"
  by (simp_all add: noCriteria_def conceptCheck_def valueCheck_def rangeCheck_def
      filterAndPush_def str_truthy_def)

lemma match_revenue_alone:
  "findDimensionalFacts \<lparr>facts = [revenueFact], contexts = [(''c1'', geoContext)]\<rparr> noCriteria =
     Inr [matchedFact revenueFact (ContextRecord geoContext)]"
  by (simp add: findDimensionalFacts_def matchFact_def example_no_filter example_refs
      example_lookups)

subsection \<open>Exact-value check\<close>

text \<open>An empty exact value is no criterion: every fact passes the check.\<close>

lemma exact_value_empty_skipped: "c_value crit = Some [] \<Longrightarrow> valueCheck crit f"
  by (simp add: valueCheck_def str_truthy_def)

text \<open>
  C4, as the code has it.  The check is guarded by the truthiness of \<^verbatim>\<open>criteria.value\<close>:
  for a criteria whose exact value is a non-empty string, an annotation survives the
  exact-value check if and only if the string form of its decoded value equals that
  string, and every result of a call that returns has such a value.  An empty string is
  treated as no criterion at all.
\<close>

theorem exact_value_check_nonempty:
  assumes "c_value crit = Some v" and "v \<noteq> []"
  shows "(valueCheck crit f \<longleftrightarrow> toString (fvalue f) = v) \<and>
         (\<forall>rs. findDimensionalFacts xbrl crit = Inr rs \<longrightarrow>
            (\<forall>r \<in> set rs. toString (fvalue (m_fact r)) = v))"
proof -
  have iff: "valueCheck crit g \<longleftrightarrow> toString (fvalue g) = v" for g
    using assms by (simp add: valueCheck_def str_truthy_def)
  have "valueCheck crit (m_fact r)"
    if "findDimensionalFacts xbrl crit = Inr rs" and "r \<in> set rs" for r rs
    using result_checked [OF that] by auto
  then show ?thesis using iff by blast
qed

theorem exact_value_check_nonempty_witness:
  "c_value exactCriteria = Some ''638000000'' \<and> ''638000000'' \<noteq> [] \<and>
   valueCheck exactCriteria revenueFact \<and> \<not> valueCheck exactCriteria yearFact \<and>
   findDimensionalFacts \<lparr>facts = [revenueFact, yearFact], contexts = [(''c1'', geoContext)]\<rparr>
     exactCriteria = Inr [matchedFact revenueFact (ContextRecord geoContext)]"
proof -
  let ?x = "\<lparr>facts = [revenueFact, yearFact], contexts = [(''c1'', geoContext)]\<rparr>"
  have h: "c_value exactCriteria = Some ''638000000''"
    by (simp add: exactCriteria_def noCriteria_def)
  have n: "''638000000'' \<noteq> []" by simp
  have v: "valueCheck exactCriteria revenueFact"
    using exact_value_check_nonempty [OF h n, of revenueFact ?x] example_values by simp
  have y: "\<not> valueCheck exactCriteria yearFact"
    using exact_value_check_nonempty [OF h n, of yearFact ?x] example_values by simp
  have "findDimensionalFacts ?x exactCriteria =
      Inr [matchedFact revenueFact (ContextRecord geoContext)]"
    using v y by (simp add: findDimensionalFacts_def matchFact_def filterAndPush_def
        conceptCheck_def rangeCheck_def str_truthy_def exactCriteria_def noCriteria_def
        example_refs example_lookups)
  with h v y show ?thesis by simp
qed

text \<open>
  The sentence of the specification fails for the empty string: the value of the fact prints as
  \<open>638000000\<close>, the criteria's exact value is the empty string, and the fact is returned.
\<close>

theorem exact_value_empty_counterexample:
  "c_value emptyValueCriteria = Some [] \<and> toString (fvalue revenueFact) = ''638000000'' \<and>
   valueCheck emptyValueCriteria revenueFact \<and>
   findDimensionalFacts \<lparr>facts = [revenueFact], contexts = [(''c1'', geoContext)]\<rparr>
     emptyValueCriteria = Inr [matchedFact revenueFact (ContextRecord geoContext)]"
  by (simp add: example_values example_refs example_lookups findDimensionalFacts_def
      matchFact_def filterAndPush_def conceptCheck_def rangeCheck_def valueCheck_def
      str_truthy_def emptyValueCriteria_def noCriteria_def)

subsection \<open>Range check\<close>

lemma js_range_finite:
  "\<not> (isNaN a \<or> js_lt a (Num lo) \<or> js_gt a (Num hi)) \<longleftrightarrow> (\<exists>x. a = Num x \<and> lo \<le> x \<and> x \<le> hi)"
  by (cases a) (auto simp: js_gt_def)

text \<open>
  C2, as the code has it.  For a range with the bounds \<open>lo\<close> and \<open>hi\<close>, an annotation
  passes the range check if and only if its decoded value, read as a number, lies in
  \<open>[lo, hi]\<close>, bounds included; a number is read as itself and a string through
  \<^verbatim>\<open>parseFloat\<close>, so a free-text value passes when its text begins with a number of the
  range and fails when it does not begin with a number.  Every result of a call that
  returns passed the check.
\<close>

theorem range_check_numeric_reading:
  assumes "c_valueRange crit = Some \<lparr>range_min = Num lo, range_max = Num hi\<rparr>"
  shows "(rangeCheck crit f \<longleftrightarrow> (\<exists>x. numValue (fvalue f) = Num x \<and> lo \<le> x \<and> x \<le> hi)) \<and>
         (\<forall>rs. findDimensionalFacts xbrl crit = Inr rs \<longrightarrow>
            (\<forall>r \<in> set rs. \<exists>x. numValue (fvalue (m_fact r)) = Num x \<and> lo \<le> x \<and> x \<le> hi))"
proof -
  have iff: "rangeCheck crit g \<longleftrightarrow> (\<exists>x. numValue (fvalue g) = Num x \<and> lo \<le> x \<and> x \<le> hi)" for g
    using assms js_range_finite [of "numValue (fvalue g)" lo hi] by (simp add: rangeCheck_def)
  have "rangeCheck crit (m_fact r)"
    if "findDimensionalFacts xbrl crit = Inr rs" and "r \<in> set rs" for r rs
    using result_checked [OF that] by auto
  then show ?thesis using iff by blast
qed

theorem range_check_numeric_reading_witness:
  "c_valueRange revenueRange = Some \<lparr>range_min = Num 600000000, range_max = Num 700000000\<rparr> \<and>
   rangeCheck revenueRange revenueFact \<and> \<not> rangeCheck revenueRange yearFact \<and>
   findDimensionalFacts \<lparr>facts = [revenueFact, yearFact], contexts = [(''c1'', geoContext)]\<rparr>
     revenueRange = Inr [matchedFact revenueFact (ContextRecord geoContext)]"
proof -
  let ?x = "\<lparr>facts = [revenueFact, yearFact], contexts = [(''c1'', geoContext)]\<rparr>"
  have h: "c_valueRange revenueRange = Some \<lparr>range_min = Num 600000000, range_max = Num 700000000\<rparr>"
    by (simp add: revenueRange_def noCriteria_def)
  have r: "rangeCheck revenueRange revenueFact"
    using range_check_numeric_reading [OF h, of revenueFact ?x] example_values by simp
  have y: "\<not> rangeCheck revenueRange yearFact"
    using range_check_numeric_reading [OF h, of yearFact ?x] example_values by simp
  have "findDimensionalFacts ?x revenueRange =
      Inr [matchedFact revenueFact (ContextRecord geoContext)]"
    using r y by (simp add: findDimensionalFacts_def matchFact_def filterAndPush_def
        conceptCheck_def valueCheck_def str_truthy_def revenueRange_def noCriteria_def
        example_refs example_lookups)
  with h r y show ?thesis by simp
qed

text \<open>
  The sentence of the specification fails for a free-text value that reads as a number: the
  decoded value of the example is the string \<open>2023\<close>, not a number, and it passes the
  range check for \<open>[2000, 3000]\<close> and is returned.
\<close>

theorem range_check_free_text_counterexample:
  "fvalue yearFact = JStr ''2023'' \<and> rangeCheck yearRange yearFact \<and>
   findDimensionalFacts \<lparr>facts = [yearFact], contexts = [(''c1'', geoContext)]\<rparr> yearRange =
     Inr [matchedFact yearFact (ContextRecord geoContext)]"
proof -
  have r: "rangeCheck yearRange yearFact"
    by (simp add: rangeCheck_def yearRange_def noCriteria_def example_values js_gt_def)
  have "findDimensionalFacts \<lparr>facts = [yearFact], contexts = [(''c1'', geoContext)]\<rparr> yearRange =
     Inr [matchedFact yearFact (ContextRecord geoContext)]"
    using r by (simp add: findDimensionalFacts_def matchFact_def filterAndPush_def
        conceptCheck_def valueCheck_def str_truthy_def yearRange_def noCriteria_def
        example_refs example_lookups)
  with r show ?thesis by (simp add: yearFact_def)
qed

subsection \<open>Context existence check\<close>

text \<open>
  A fact whose context reference reads \<^verbatim>\<open>undefined\<close> in the contexts is left out: the
  outcome of the call is the one without that fact, and no result refers to it.
\<close>

lemma unknown_context_dropped:
  assumes "getProp ctxs (contextRef f) = Undefined"
  shows "findDimensionalFacts \<lparr>facts = pre @ f # post, contexts = ctxs\<rparr> crit =
           findDimensionalFacts \<lparr>facts = pre @ post, contexts = ctxs\<rparr> crit"
    and "findDimensionalFacts \<lparr>facts = fs, contexts = ctxs\<rparr> crit = Inr rs \<Longrightarrow>
           r \<in> set rs \<Longrightarrow> contextRef (m_fact r) \<noteq> contextRef f"
proof -
  have "matchFact ctxs crit f = Inr None"
    using assms by (simp add: matchFact_def)
  then show "findDimensionalFacts \<lparr>facts = pre @ f # post, contexts = ctxs\<rparr> crit =
           findDimensionalFacts \<lparr>facts = pre @ post, contexts = ctxs\<rparr> crit"
    by (simp add: findDimensionalFacts_def matchFacts_skip)
next
  assume a: "findDimensionalFacts \<lparr>facts = fs, contexts = ctxs\<rparr> crit = Inr rs" "r \<in> set rs"
  from result_checked [OF a] obtain g where
    g: "matchFact ctxs crit g = Inr (Some r)" "m_fact r = g" by auto
  from matchFact_result [OF g(1)] have "getProp ctxs (contextRef g) \<noteq> Undefined" by blast
  with assms g(2) show "contextRef (m_fact r) \<noteq> contextRef f" by auto
qed

lemma example_orphan_dropped:
  "findDimensionalFacts \<lparr>facts = [revenueFact, orphanFact], contexts = [(''c1'', geoContext)]\<rparr>
     noCriteria = Inr [matchedFact revenueFact (ContextRecord geoContext)]"
proof -
  have "getProp [(''c1'', geoContext)] (contextRef orphanFact) = Undefined"
    by (simp add: example_refs example_lookups)
  from unknown_context_dropped(1) [OF this, of "[revenueFact]" "[]" noCriteria]
  show ?thesis by (simp add: match_revenue_alone)
qed

text \<open>
  C6.  The check \<^verbatim>\<open>if (!context) continue\<close> does not drop a fact whose context reference
  is no key of the contexts when the reference is the name of a member of
  \<^verbatim>\<open>Object.prototype\<close>.  For the reference \<open>constructor\<close> the contexts have no entry, the
  read finds the inherited member, and the fact is returned, with that member as its
  context and without period and dimensions; with a dimensional criterion the call
  throws.
\<close>

theorem inherited_context_not_dropped:
  "map_of [(''c1'', geoContext)] (contextRef constructorFact) = None \<and>
   findDimensionalFacts \<lparr>facts = [constructorFact], contexts = [(''c1'', geoContext)]\<rparr>
     noCriteria = Inr [matchedFact constructorFact (InheritedMember ''constructor'')] \<and>
   m_period (matchedFact constructorFact (InheritedMember ''constructor'')) = None \<and>
   m_dimensions (matchedFact constructorFact (InheritedMember ''constructor'')) = None \<and>
   findDimensionalFacts \<lparr>facts = [constructorFact], contexts = [(''c1'', geoContext)]\<rparr>
     geoCriteria = Inl TypeError"
proof -
  have g: "conceptCheck geoCriteria constructorFact" "valueCheck geoCriteria constructorFact"
      "rangeCheck geoCriteria constructorFact"
    by (simp_all add: geoCriteria_def noCriteria_def conceptCheck_def valueCheck_def
        rangeCheck_def str_truthy_def)
  have "findDimensionalFacts \<lparr>facts = [constructorFact], contexts = [(''c1'', geoContext)]\<rparr>
     noCriteria = Inr [matchedFact constructorFact (InheritedMember ''constructor'')]"
    by (simp add: findDimensionalFacts_def matchFact_def example_no_filter example_refs
        example_lookups)
  moreover have "findDimensionalFacts
      \<lparr>facts = [constructorFact], contexts = [(''c1'', geoContext)]\<rparr> geoCriteria = Inl TypeError"
    using g by (simp add: findDimensionalFacts_def matchFact_def filterAndPush_def
        example_refs example_lookups geoCriteria_def noCriteria_def)
  ultimately show ?thesis by (simp add: matchedFact_def example_refs)
qed

subsection \<open>Dimensional check\<close>

text \<open>The loop over the named axes ends with \<^verbatim>\<open>dimensionMatch\<close> true only when the
  context has, for every axis, a member of its own that contains the text.\<close>

lemma dimensionLoop_True:
  assumes "dimensionLoop dims ds = Inr True" and "(axis, sub) \<in> set ds"
  shows "\<exists>d member. dims = Some d \<and> map_of d axis = Some member \<and> member \<noteq> [] \<and>
           str_includes (toLowerCase member) (toLowerCase sub)"
  using assms
proof (induction ds)
  case Nil
  then show ?case by simp
next
  case (Cons e ds)
  obtain a s where e: "e = (a, s)" by (cases e)
  from Cons.prems(1) e obtain d where d: "dims = Some d"
    by (cases dims) auto
  from Cons.prems(1) e d obtain member where m: "getProp d a = Own member"
    by (cases "getProp d a") auto
  from Cons.prems(1) e d m have ok: "member \<noteq> []"
      "str_includes (toLowerCase member) (toLowerCase s)" "dimensionLoop dims ds = Inr True"
    by (auto split: if_splits)
  from m have own: "map_of d a = Some member"
    by (auto simp: getProp_def split: option.splits if_splits)
  show ?case
  proof (cases "(axis, sub) = e")
    case True
    with e d own ok show ?thesis by auto
  next
    case False
    with Cons.prems(2) have "(axis, sub) \<in> set ds" by auto
    from Cons.IH [OF ok(3) this] show ?thesis .
  qed
qed

text \<open>
  Whenever the call returns, the filter is conjunctive: for every axis that the
  criteria name, the context of every result has a member for the axis that contains the
  text, compared in lower case, and a fact whose context lacks one of the named axes, or
  has a member without the text, is in no result.
\<close>

lemma dimensional_filter_conjunctive:
  assumes "c_dimensions crit = Some ds" and "(axis, sub) \<in> set ds"
    and "findDimensionalFacts xbrl crit = Inr rs"
  shows "(\<forall>r \<in> set rs. \<exists>d member. m_dimensions r = Some d \<and> map_of d axis = Some member \<and>
            str_includes (toLowerCase member) (toLowerCase sub)) \<and>
         (\<forall>f ctx. map_of (contexts xbrl) (contextRef f) = Some ctx \<and>
            (map_of (dimensions ctx) axis = None \<or>
             (\<exists>member. map_of (dimensions ctx) axis = Some member \<and>
                \<not> str_includes (toLowerCase member) (toLowerCase sub))) \<longrightarrow>
            (\<forall>r \<in> set rs. m_fact r \<noteq> f))"
proof -
  have res: "\<exists>d member. m_dimensions r = Some d \<and> map_of d axis = Some member \<and>
      str_includes (toLowerCase member) (toLowerCase sub)"
    and ctx: "\<forall>c. map_of (contexts xbrl) (contextRef (m_fact r)) = Some c \<longrightarrow>
      m_dimensions r = Some (dimensions c)"
    if "r \<in> set rs" for r
  proof -
    from result_checked [OF assms(3) that] obtain f where
      f: "matchFact (contexts xbrl) crit f = Inr (Some r)" "m_fact r = f" by auto
    note m = matchFact_result [OF f(1)]
    from m assms(1) have "dimensionLoop (m_dimensions r) ds = Inr True" by simp
    from dimensionLoop_True [OF this assms(2)]
    show "\<exists>d member. m_dimensions r = Some d \<and> map_of d axis = Some member \<and>
      str_includes (toLowerCase member) (toLowerCase sub)" by blast
    show "\<forall>c. map_of (contexts xbrl) (contextRef (m_fact r)) = Some c \<longrightarrow>
      m_dimensions r = Some (dimensions c)"
    proof (intro allI impI)
      fix c assume "map_of (contexts xbrl) (contextRef (m_fact r)) = Some c"
      then have "getProp (contexts xbrl) (contextRef f) = Own c"
        using f(2) by (simp add: getProp_def)
      with matchFact_result [OF f(1), of c] show "m_dimensions r = Some (dimensions c)"
        by simp
    qed
  qed
  have second: "m_fact r \<noteq> f"
    if "r \<in> set rs" and "map_of (contexts xbrl) (contextRef f) = Some c"
      and "map_of (dimensions c) axis = None \<or>
           (\<exists>member. map_of (dimensions c) axis = Some member \<and>
              \<not> str_includes (toLowerCase member) (toLowerCase sub))" for r f c
  proof
    assume "m_fact r = f"
    with ctx [OF that(1)] that(2) have "m_dimensions r = Some (dimensions c)" by simp
    with res [OF that(1)] that(3) show False by auto
  qed
  show ?thesis using res second by blast
qed

text \<open>The call returns when no context reference of a fact and no axis of the criteria
  is the name of a member of \<^verbatim>\<open>Object.prototype\<close>.\<close>

lemma dimensionLoop_returns:
  assumes "\<forall>e \<in> set ds. fst e \<notin> set objectPrototypeNames"
  shows "\<exists>b. dimensionLoop (Some d) ds = Inr b"
  using assms
proof (induction ds)
  case Nil
  show ?case by auto
next
  case (Cons e ds)
  obtain a s where e: "e = (a, s)" by (cases e)
  from Cons.prems e have n: "getProp d a \<noteq> Inherited n" for n
    by (auto simp: getProp_def split: option.splits)
  from Cons obtain b where b: "dimensionLoop (Some d) ds = Inr b" by auto
  show ?case
  proof (cases "getProp d a")
    case (Own member)
    with e b show ?thesis by auto
  next
    case (Inherited x)
    with n [of x] show ?thesis by simp
  next
    case Undefined
    with e show ?thesis by auto
  qed
qed

lemma findDimensionalFacts_returns:
  assumes "\<forall>f \<in> set (facts xbrl). contextRef f \<notin> set objectPrototypeNames"
    and "\<forall>ds. c_dimensions crit = Some ds \<longrightarrow> (\<forall>e \<in> set ds. fst e \<notin> set objectPrototypeNames)"
  shows "\<exists>rs. findDimensionalFacts xbrl crit = Inr rs"
proof -
  have one: "\<exists>res. matchFact (contexts xbrl) crit f = Inr res"
    if "contextRef f \<notin> set objectPrototypeNames" for f
  proof (cases "getProp (contexts xbrl) (contextRef f)")
    case (Own c)
    show ?thesis
    proof (cases "c_dimensions crit")
      case None
      with Own show ?thesis by (simp add: matchFact_def filterAndPush_def)
    next
      case (Some ds)
      with assms(2) obtain b where "dimensionLoop (Some (dimensions c)) ds = Inr b"
        using dimensionLoop_returns [of ds "dimensions c"] by blast
      with Own Some show ?thesis by (simp add: matchFact_def filterAndPush_def)
    qed
  next
    case (Inherited n)
    with that show ?thesis by (auto simp: getProp_def split: option.splits if_splits)
  next
    case Undefined
    then show ?thesis by (simp add: matchFact_def)
  qed
  have "\<exists>rs. matchFacts (contexts xbrl) crit fs = Inr rs"
    if "\<forall>f \<in> set fs. contextRef f \<notin> set objectPrototypeNames" for fs
    using that
  proof (induction fs)
    case Nil
    show ?case by auto
  next
    case (Cons f fs)
    then obtain res rs where "matchFact (contexts xbrl) crit f = Inr res"
      "matchFacts (contexts xbrl) crit fs = Inr rs"
      using one [of f] by auto
    then show ?case by (cases res) auto
  qed
  with assms(1) show ?thesis by (simp add: findDimensionalFacts_def)
qed

text \<open>Two axes: a fact is returned when its context has a member with the text for both,
  and left out when one member lacks the text or one axis is absent.\<close>

lemma example_two_axes:
  "findDimensionalFacts
     \<lparr>facts = [revenueFact, segmentFact],
      contexts = [(''c1'', geoContext), (''c3'', segmentContext)]\<rparr> twoAxisCriteria =
     Inr [matchedFact segmentFact (ContextRecord segmentContext)]"
  "findDimensionalFacts
     \<lparr>facts = [revenueFact, segmentFact],
      contexts = [(''c1'', geoContext), (''c3'', segmentContext)]\<rparr> pharmaCriteria = Inr []"
proof -
  have s: "str_includes (toLowerCase ''us-gaap:NonUsMember'') (toLowerCase ''nonus'')"
      "str_includes (toLowerCase ''jnj:MedTechMember'') (toLowerCase ''medtech'')"
      "\<not> str_includes (toLowerCase ''jnj:MedTechMember'') (toLowerCase ''pharma'')"
    by code_simp+
  have c: "conceptCheck twoAxisCriteria f" "valueCheck twoAxisCriteria f"
      "rangeCheck twoAxisCriteria f" "conceptCheck pharmaCriteria f"
      "valueCheck pharmaCriteria f" "rangeCheck pharmaCriteria f" for f
    by (simp_all add: twoAxisCriteria_def pharmaCriteria_def noCriteria_def conceptCheck_def
        valueCheck_def rangeCheck_def str_truthy_def)
  show "findDimensionalFacts
     \<lparr>facts = [revenueFact, segmentFact],
      contexts = [(''c1'', geoContext), (''c3'', segmentContext)]\<rparr> twoAxisCriteria =
     Inr [matchedFact segmentFact (ContextRecord segmentContext)]"
    using s c by (simp add: findDimensionalFacts_def matchFact_def filterAndPush_def
        example_refs example_lookups twoAxisCriteria_def noCriteria_def geoContext_def
        segmentContext_def getProp_def objectPrototypeNames_def)
  show "findDimensionalFacts
     \<lparr>facts = [revenueFact, segmentFact],
      contexts = [(''c1'', geoContext), (''c3'', segmentContext)]\<rparr> pharmaCriteria = Inr []"
    using s c by (simp add: findDimensionalFacts_def matchFact_def filterAndPush_def
        example_refs example_lookups pharmaCriteria_def noCriteria_def geoContext_def
        segmentContext_def getProp_def objectPrototypeNames_def)
qed

text \<open>
  C5.  An axis that the criteria name and the context lacks does not always exclude the
  fact.  For the axis \<open>constructor\<close> the dimensions of the context have no entry, the
  read \<^verbatim>\<open>context.dimensions[dimName]\<close> finds the member inherited from
  \<^verbatim>\<open>Object.prototype\<close>, which is truthy and has no \<^verbatim>\<open>toLowerCase\<close>, and the call throws
  instead of returning the results without the fact.  For an axis that is absent and is
  no such name the fact is excluded and the call returns.
\<close>

theorem inherited_axis_throws:
  "c_dimensions constructorAxisCriteria = Some [(''constructor'', ''x'')] \<and>
   map_of (dimensions geoContext) ''constructor'' = None \<and>
   findDimensionalFacts \<lparr>facts = [revenueFact], contexts = [(''c1'', geoContext)]\<rparr>
     constructorAxisCriteria = Inl TypeError \<and>
   map_of (dimensions geoContext) ''us-gaap:StatementBusinessSegmentsAxis'' = None \<and>
   findDimensionalFacts \<lparr>facts = [revenueFact], contexts = [(''c1'', geoContext)]\<rparr>
     twoAxisCriteria = Inr []"
proof -
  have s: "str_includes (toLowerCase ''us-gaap:NonUsMember'') (toLowerCase ''nonus'')"
    by code_simp
  have c: "conceptCheck twoAxisCriteria f" "valueCheck twoAxisCriteria f"
      "rangeCheck twoAxisCriteria f" "conceptCheck constructorAxisCriteria f"
      "valueCheck constructorAxisCriteria f" "rangeCheck constructorAxisCriteria f" for f
    by (simp_all add: twoAxisCriteria_def constructorAxisCriteria_def noCriteria_def
        conceptCheck_def valueCheck_def rangeCheck_def str_truthy_def)
  have "findDimensionalFacts \<lparr>facts = [revenueFact], contexts = [(''c1'', geoContext)]\<rparr>
     constructorAxisCriteria = Inl TypeError"
    using c by (simp add: findDimensionalFacts_def matchFact_def filterAndPush_def
        example_refs example_lookups constructorAxisCriteria_def noCriteria_def geoContext_def
        getProp_def objectPrototypeNames_def)
  moreover have "findDimensionalFacts
      \<lparr>facts = [revenueFact], contexts = [(''c1'', geoContext)]\<rparr> twoAxisCriteria = Inr []"
    using s c by (simp add: findDimensionalFacts_def matchFact_def filterAndPush_def
        example_refs example_lookups twoAxisCriteria_def noCriteria_def geoContext_def
        getProp_def objectPrototypeNames_def)
  ultimately show ?thesis
    by (simp add: constructorAxisCriteria_def noCriteria_def geoContext_def)
qed

subsection \<open>Decoding of numeric values\<close>

text \<open>
  C1.  The extractor does not apply the scale attribute of the markup.  In the
  numeric-fraction pattern the star \<^verbatim>\<open>[^>]*\<close> before each optional group takes the
  rest of the attributes, the optional groups for \<^verbatim>\<open>unitRef\<close>, \<^verbatim>\<open>decimals\<close> and
  \<^verbatim>\<open>scale\<close> match the empty text, and the match succeeds with those groups undefined.
  For the annotation with concept \<open>us-gaap:Revenue\<close>, scale \<open>6\<close> and text \<open>638\<close> the
  extracted fact has no scale and the decoded value \<open>638\<close>, where
  \<^const>\<open>parseNumericValue\<close> on the text and the scale gives \<open>638000000\<close>.
\<close>

theorem scale_attribute_not_applied:
  "extractFactsFromIxbrl scaledMarkup = [unscaledFact] \<and>
   fvalue unscaledFact = JNum (Num 638) \<and> scale unscaledFact = None \<and>
   parseNumericValue ''638'' (Some ''6'') = Num 638000000 \<and>
   findDimensionalFacts
     \<lparr>facts = extractFactsFromIxbrl scaledMarkup, contexts = [(''c1'', geoContext)]\<rparr>
     scenarioCriteria = Inr []"
proof -
  have e: "extractFactsFromIxbrl scaledMarkup = [unscaledFact]"
    by code_simp
  have p: "parseNumericValue ''638'' (Some ''6'') = Num 638000000"
    by code_simp
  have "\<not> rangeCheck scenarioCriteria unscaledFact"
    by (simp add: rangeCheck_def scenarioCriteria_def noCriteria_def unscaledFact_def)
  then have "findDimensionalFacts \<lparr>facts = [unscaledFact], contexts = [(''c1'', geoContext)]\<rparr>
      scenarioCriteria = Inr []"
    by (simp add: findDimensionalFacts_def matchFact_def)
  with e p show ?thesis by (simp add: unscaledFact_def)
qed

lemma pow10_finite: "k \<le> 308 \<Longrightarrow> \<exists>x. pow10 (Num k) = Num x"
  by (auto simp: pow10_def Let_def floor_le_iff)

text \<open>
  C3, as the code has it.  For a numeric-fraction annotation whose inner text, without
  its thousands separators, is not read as a number, the decoded value is the number
  zero when no scale was captured or the captured scale is read as an integer of at most
  308.  For a ratio-fraction annotation whose inner text is not read as a number, the
  decoded value is the raw inner text: that path has no zero default.
\<close>

theorem unparsable_text_decoding:
  "(parseFloat (filter (\<lambda>c. c \<noteq> CHR '','') (grp m 6)) = NaN \<and>
      (\<not> str_truthy (m ! 5) \<or> (\<exists>k. parseInt (the (m ! 5)) = Num k \<and> k \<le> 308)) \<longrightarrow>
      fvalue (nonFractionFact m) = JNum (Num 0)) \<and>
   (parseFloat (grp m' 3) = NaN \<longrightarrow> fvalue (fractionFact m') = JStr (grp m' 3))"
proof (intro conjI impI)
  assume a: "parseFloat (filter (\<lambda>c. c \<noteq> CHR '','') (grp m 6)) = NaN \<and>
      (\<not> str_truthy (m ! 5) \<or> (\<exists>k. parseInt (the (m ! 5)) = Num k \<and> k \<le> 308))"
  then have z: "or_zero (parseFloat (filter (\<lambda>c. c \<noteq> CHR '','') (grp m 6))) = Num 0"
    by (simp add: or_zero_def)
  have "parseNumericValue (grp m 6) (m ! 5) = Num 0"
  proof (cases "str_truthy (m ! 5)")
    case False
    with z show ?thesis by (simp add: parseNumericValue_def)
  next
    case True
    with a obtain k where k: "parseInt (the (m ! 5)) = Num k" "k \<le> 308" by blast
    then obtain x where "pow10 (Num k) = Num x" using pow10_finite by blast
    with True z k show ?thesis by (simp add: parseNumericValue_def)
  qed
  then show "fvalue (nonFractionFact m) = JNum (Num 0)"
    by (simp add: nonFractionFact_def Let_def split_beta)
next
  assume "parseFloat (grp m' 3) = NaN"
  then show "fvalue (fractionFact m') = JStr (grp m' 3)"
    by (simp add: fractionFact_def Let_def split_beta)
qed

theorem unparsable_text_decoding_witness:
  "parseFloat (filter (\<lambda>c. c \<noteq> CHR '','') (grp unparsableCaps 6)) = NaN \<and>
   \<not> str_truthy (unparsableCaps ! 5) \<and>
   fvalue (nonFractionFact unparsableCaps) = JNum (Num 0) \<and>
   parseFloat (grp unparsableRatioCaps 3) = NaN \<and>
   fvalue (fractionFact unparsableRatioCaps) = JStr ''n/a''"
proof -
  have a: "parseFloat (filter (\<lambda>c. c \<noteq> CHR '','') (grp unparsableCaps 6)) = NaN"
    by code_simp
  have b: "\<not> str_truthy (unparsableCaps ! 5)"
    by (simp add: unparsableCaps_def str_truthy_def)
  have c: "parseFloat (grp unparsableRatioCaps 3) = NaN"
    by code_simp
  have d: "grp unparsableRatioCaps 3 = ''n/a''"
    by (simp add: unparsableRatioCaps_def grp_def)
  show ?thesis
    using a b c d unparsable_text_decoding [of unparsableCaps unparsableRatioCaps] by simp
qed

text \<open>
  The sentence of the specification fails for the ratio-fraction kind: the text \<open>n/a\<close> is not
  read as a number and the decoded value of the extracted fact is that text.  It also
  fails for a numeric-fraction text with a scale that is not an integer, where the
  decoded value is \<open>NaN\<close>.
\<close>

theorem unparsable_ratio_counterexample:
  "parseFloat ''n/a'' = NaN \<and> extractFactsFromIxbrl ratioMarkup = [ratioFact] \<and>
   fvalue ratioFact = JStr ''n/a'' \<and> parseNumericValue ''n/a'' (Some ''x'') = NaN"
proof -
  have "parseFloat ''n/a'' = NaN" by code_simp
  moreover have "extractFactsFromIxbrl ratioMarkup = [ratioFact]" by code_simp
  moreover have "parseNumericValue ''n/a'' (Some ''x'') = NaN" by code_simp
  ultimately show ?thesis by (simp add: ratioFact_def)
qed

subsection \<open>Unit of a numeric-fraction annotation\<close>















subsection \<open>Period of a context block\<close>

text \<open>
  The search for a date pattern finds a match exactly when the text has a marker, and
  the date it captures is the date of a marker.
\<close>

lemma lit_prefix_exact: "lit_prefix False l s = strip_prefix l s"
  by (induction l s rule: strip_prefix.induct) (auto simp: ch_eq_def)

lemma take_length_dropWhile:
  "take (length s - length (dropWhile P s)) s = takeWhile P s"
proof -
  have "length s = length (takeWhile P s) + length (dropWhile P s)"
    by (metis length_append takeWhile_dropWhile_id)
  then have "length s - length (dropWhile P s) = length (takeWhile P s)" by simp
  then show ?thesis by (metis append_eq_conv_conj takeWhile_dropWhile_id)
qed

lemma star_before_closing:
  "rmatch False (Do (Star (NotCh x)) # Close n s0 # Do (Lit (x # b)) # ts) s cs =
     (case strip_prefix (x # b) (dropWhile (\<lambda>c. c \<noteq> x) s) of
        None \<Rightarrow> None
      | Some r \<Rightarrow>
          rmatch False ts r
            (cs[n := Some (take (length s0 - length (dropWhile (\<lambda>c. c \<noteq> x) s)) s0)]))"
proof (induction s)
  case Nil
  show ?case by (simp add: lit_prefix_exact)
next
  case (Cons c s)
  show ?case
  proof (cases "c = x")
    case True
    then show ?thesis by (simp add: lit_prefix_exact ch_eq_def split: option.splits)
  next
    case False
    then have "rmatch False (Close n s0 # Do (Lit (x # b)) # ts) (c # s) cs = None"
      by (simp add: ch_eq_def)
    with False Cons show ?thesis
      by (simp add: ch_eq_def split: option.splits)
  qed
qed

lemma rx_at_tag:
  "rx_at (tagPattern opening (CHR ''<'' # b)) s =
     (case strip_prefix opening s of
        None \<Rightarrow> None
      | Some s1 \<Rightarrow>
          (case strip_prefix (CHR ''<'' # b) (dropWhile (\<lambda>c. c \<noteq> CHR ''<'') s1) of
             None \<Rightarrow> None
           | Some r \<Rightarrow>
               Some (r, [Some (take (length s - length r) s),
                         Some (takeWhile (\<lambda>c. c \<noteq> CHR ''<'') s1)])))"
  by (simp add: rx_at_def tagPattern_def lit_prefix_exact star_before_closing
      take_length_dropWhile del: rmatch.simps(4) split: option.splits)

lemma rx_at_tag_iff:
  "rx_at (tagPattern opening (CHR ''<'' # b)) s = Some (r, m) \<Longrightarrow>
     \<exists>post. s = opening @ grp m 1 @ (CHR ''<'' # b) @ post \<and> CHR ''<'' \<notin> set (grp m 1)"
proof -
  assume a: "rx_at (tagPattern opening (CHR ''<'' # b)) s = Some (r, m)"
  then obtain s1 where s1: "strip_prefix opening s = Some s1"
    by (auto simp: rx_at_tag split: option.splits)
  let ?d = "takeWhile (\<lambda>c. c \<noteq> CHR ''<'') s1"
  from a s1 obtain r' where r': "strip_prefix (CHR ''<'' # b) (dropWhile (\<lambda>c. c \<noteq> CHR ''<'') s1) = Some r'"
    and m: "m = [Some (take (length s - length r') s), Some ?d]"
    by (auto simp: rx_at_tag split: option.splits)
  have "s = opening @ s1" using s1 by (simp add: strip_prefix_iff)
  moreover have "s1 = ?d @ dropWhile (\<lambda>c. c \<noteq> CHR ''<'') s1" by simp
  moreover have "dropWhile (\<lambda>c. c \<noteq> CHR ''<'') s1 = (CHR ''<'' # b) @ r'"
    using r' by (simp only: strip_prefix_iff)
  moreover have "CHR ''<'' \<notin> set ?d" by (auto dest: set_takeWhileD)
  moreover have "grp m 1 = ?d" using m by (simp add: grp_def)
  ultimately show ?thesis by metis
qed

lemma rx_at_tag_complete:
  assumes "CHR ''<'' \<notin> set d"
  shows "rx_at (tagPattern opening (CHR ''<'' # b)) (opening @ d @ (CHR ''<'' # b) @ post) \<noteq> None"
proof -
  have "strip_prefix opening (opening @ d @ (CHR ''<'' # b) @ post) = Some (d @ (CHR ''<'' # b) @ post)"
    by (simp add: strip_prefix_iff)
  moreover have "dropWhile (\<lambda>c. c \<noteq> CHR ''<'') (d @ (CHR ''<'' # b) @ post) = (CHR ''<'' # b) @ post"
  proof -
    have "\<forall>x \<in> set d. x \<noteq> CHR ''<''" using assms by blast
    then show ?thesis by (simp add: dropWhile_append3)
  qed
  moreover have "strip_prefix (CHR ''<'' # b) ((CHR ''<'' # b) @ post) = Some post"
    by (simp only: strip_prefix_iff)
  ultimately show ?thesis by (simp add: rx_at_tag)
qed

lemma rx_search_Some:
  "rx_search re c = Some m \<Longrightarrow> \<exists>pre s r. c = pre @ s \<and> rx_at re s = Some (r, m)"
proof (induction c)
  case Nil
  then show ?case by (cases "rx_at re []") auto
next
  case (Cons a c)
  show ?case
  proof (cases "rx_at re (a # c)")
    case None
    with Cons obtain pre s r where "c = pre @ s" "rx_at re s = Some (r, m)" by auto
    then have "a # c = (a # pre) @ s \<and> rx_at re s = Some (r, m)" by simp
    then show ?thesis by blast
  next
    case (Some p)
    with Cons.prems have "rx_at re (a # c) = Some (fst p, m)" by (cases p) auto
    then have "a # c = [] @ (a # c) \<and> rx_at re (a # c) = Some (fst p, m)" by simp
    then show ?thesis by blast
  qed
qed

lemma rx_search_None:
  "rx_search re (pre @ s) = None \<Longrightarrow> rx_at re s = None"
proof (induction pre)
  case Nil
  then show ?case by (cases s) (auto split: option.splits)
next
  case (Cons a pre)
  then show ?case by (auto split: option.splits)
qed

lemma tag_search_marker:
  "rx_search (tagPattern opening (CHR ''<'' # b)) c = Some m \<Longrightarrow>
     marker_at opening (CHR ''<'' # b) (grp m 1) c"
proof -
  assume "rx_search (tagPattern opening (CHR ''<'' # b)) c = Some m"
  then obtain pre s r where c: "c = pre @ s"
    and "rx_at (tagPattern opening (CHR ''<'' # b)) s = Some (r, m)"
    using rx_search_Some by blast
  then obtain post where "s = opening @ grp m 1 @ (CHR ''<'' # b) @ post"
    "CHR ''<'' \<notin> set (grp m 1)"
    using rx_at_tag_iff by blast
  with c show ?thesis unfolding marker_at_def by blast
qed

lemma tag_search_iff:
  "rx_search (tagPattern opening (CHR ''<'' # b)) c \<noteq> None \<longleftrightarrow>
     has_marker opening (CHR ''<'' # b) c"
proof
  assume "rx_search (tagPattern opening (CHR ''<'' # b)) c \<noteq> None"
  then show "has_marker opening (CHR ''<'' # b) c"
    using tag_search_marker unfolding has_marker_def by blast
next
  assume "has_marker opening (CHR ''<'' # b) c"
  then obtain d pre post where c: "c = pre @ opening @ d @ (CHR ''<'' # b) @ post"
    and d: "CHR ''<'' \<notin> set d"
    unfolding has_marker_def marker_at_def by blast
  show "rx_search (tagPattern opening (CHR ''<'' # b)) c \<noteq> None"
  proof
    assume "rx_search (tagPattern opening (CHR ''<'' # b)) c = None"
    then have "rx_at (tagPattern opening (CHR ''<'' # b)) (opening @ d @ (CHR ''<'' # b) @ post) = None"
      using c rx_search_None by blast
    with rx_at_tag_complete [OF d] show False by blast
  qed
qed

lemma date_patterns:
  "instantPattern = tagPattern ''<xbrli:instant>'' ''</xbrli:instant>''"
  "startDatePattern = tagPattern ''<xbrli:startDate>'' ''</xbrli:startDate>''"
  "endDatePattern = tagPattern ''<xbrli:endDate>'' ''</xbrli:endDate>''"
  by (simp_all add: instantPattern_def startDatePattern_def endDatePattern_def tagPattern_def)


lemma extractPeriod_by_markers:
  "extractPeriodFromContext c =
     (if rx_search (tagPattern ''<xbrli:instant>'' ''</xbrli:instant>'') c \<noteq> None then
        \<lparr>ptype = ''instant'',
         instant = Some (grp (the (rx_search (tagPattern ''<xbrli:instant>'' ''</xbrli:instant>'') c)) 1),
         startDate = None, endDate = None\<rparr>
      else if rx_search (tagPattern ''<xbrli:startDate>'' ''</xbrli:startDate>'') c \<noteq> None \<and>
              rx_search (tagPattern ''<xbrli:endDate>'' ''</xbrli:endDate>'') c \<noteq> None then
        \<lparr>ptype = ''duration'', instant = None,
         startDate = Some (grp (the (rx_search (tagPattern ''<xbrli:startDate>'' ''</xbrli:startDate>'') c)) 1),
         endDate = Some (grp (the (rx_search (tagPattern ''<xbrli:endDate>'' ''</xbrli:endDate>'') c)) 1)\<rparr>
      else \<lparr>ptype = ''unknown'', instant = None, startDate = None, endDate = None\<rparr>)"
  by (simp add: extractPeriodFromContext_def date_patterns Let_def)

text \<open>
  C7.  A block with an instant-date marker resolves to the kind \<open>instant\<close> with the date
  of such a marker and no other date.  A block without an instant-date marker and with
  both a start-date and an end-date marker resolves to \<open>duration\<close> with the dates of
  those markers.  Every other block, one with a start-date marker and no end-date marker
  among them, resolves to \<open>unknown\<close> with no date field.
\<close>

theorem period_resolution:
  "(has_marker ''<xbrli:instant>'' ''</xbrli:instant>'' c \<longrightarrow>
      (\<exists>d. marker_at ''<xbrli:instant>'' ''</xbrli:instant>'' d c \<and>
         extractPeriodFromContext c =
           \<lparr>ptype = ''instant'', instant = Some d, startDate = None, endDate = None\<rparr>)) \<and>
   (\<not> has_marker ''<xbrli:instant>'' ''</xbrli:instant>'' c \<and>
      has_marker ''<xbrli:startDate>'' ''</xbrli:startDate>'' c \<and>
      has_marker ''<xbrli:endDate>'' ''</xbrli:endDate>'' c \<longrightarrow>
      (\<exists>ds de. marker_at ''<xbrli:startDate>'' ''</xbrli:startDate>'' ds c \<and>
         marker_at ''<xbrli:endDate>'' ''</xbrli:endDate>'' de c \<and>
         extractPeriodFromContext c =
           \<lparr>ptype = ''duration'', instant = None, startDate = Some ds, endDate = Some de\<rparr>)) \<and>
   (\<not> has_marker ''<xbrli:instant>'' ''</xbrli:instant>'' c \<and>
      (\<not> has_marker ''<xbrli:startDate>'' ''</xbrli:startDate>'' c \<or>
       \<not> has_marker ''<xbrli:endDate>'' ''</xbrli:endDate>'' c) \<longrightarrow>
      extractPeriodFromContext c =
        \<lparr>ptype = ''unknown'', instant = None, startDate = None, endDate = None\<rparr>)"
proof (intro conjI impI)
  assume "has_marker ''<xbrli:instant>'' ''</xbrli:instant>'' c"
  then obtain m where m: "rx_search (tagPattern ''<xbrli:instant>'' ''</xbrli:instant>'') c = Some m"
    using tag_search_iff [of "''<xbrli:instant>''" "''/xbrli:instant>''" c] by auto
  then have "marker_at ''<xbrli:instant>'' ''</xbrli:instant>'' (grp m 1) c"
    using tag_search_marker [of "''<xbrli:instant>''" "''/xbrli:instant>''" c m] by simp
  moreover have "extractPeriodFromContext c =
      \<lparr>ptype = ''instant'', instant = Some (grp m 1), startDate = None, endDate = None\<rparr>"
    using m by (simp add: extractPeriod_by_markers)
  ultimately show "\<exists>d. marker_at ''<xbrli:instant>'' ''</xbrli:instant>'' d c \<and>
      extractPeriodFromContext c =
        \<lparr>ptype = ''instant'', instant = Some d, startDate = None, endDate = None\<rparr>"
    by blast
next
  assume a: "\<not> has_marker ''<xbrli:instant>'' ''</xbrli:instant>'' c \<and>
      has_marker ''<xbrli:startDate>'' ''</xbrli:startDate>'' c \<and>
      has_marker ''<xbrli:endDate>'' ''</xbrli:endDate>'' c"
  have i: "rx_search (tagPattern ''<xbrli:instant>'' ''</xbrli:instant>'') c = None"
    using a tag_search_iff [of "''<xbrli:instant>''" "''/xbrli:instant>''" c] by auto
  obtain ms where ms: "rx_search (tagPattern ''<xbrli:startDate>'' ''</xbrli:startDate>'') c = Some ms"
    using a tag_search_iff [of "''<xbrli:startDate>''" "''/xbrli:startDate>''" c] by auto
  obtain me where me: "rx_search (tagPattern ''<xbrli:endDate>'' ''</xbrli:endDate>'') c = Some me"
    using a tag_search_iff [of "''<xbrli:endDate>''" "''/xbrli:endDate>''" c] by auto
  have "marker_at ''<xbrli:startDate>'' ''</xbrli:startDate>'' (grp ms 1) c"
    using ms tag_search_marker [of "''<xbrli:startDate>''" "''/xbrli:startDate>''" c ms] by simp
  moreover have "marker_at ''<xbrli:endDate>'' ''</xbrli:endDate>'' (grp me 1) c"
    using me tag_search_marker [of "''<xbrli:endDate>''" "''/xbrli:endDate>''" c me] by simp
  moreover have "extractPeriodFromContext c =
      \<lparr>ptype = ''duration'', instant = None, startDate = Some (grp ms 1),
       endDate = Some (grp me 1)\<rparr>"
    using i ms me by (simp add: extractPeriod_by_markers)
  ultimately show "\<exists>ds de. marker_at ''<xbrli:startDate>'' ''</xbrli:startDate>'' ds c \<and>
      marker_at ''<xbrli:endDate>'' ''</xbrli:endDate>'' de c \<and>
      extractPeriodFromContext c =
        \<lparr>ptype = ''duration'', instant = None, startDate = Some ds, endDate = Some de\<rparr>"
    by blast
next
  assume a: "\<not> has_marker ''<xbrli:instant>'' ''</xbrli:instant>'' c \<and>
      (\<not> has_marker ''<xbrli:startDate>'' ''</xbrli:startDate>'' c \<or>
       \<not> has_marker ''<xbrli:endDate>'' ''</xbrli:endDate>'' c)"
  have i: "rx_search (tagPattern ''<xbrli:instant>'' ''</xbrli:instant>'') c = None"
    using a tag_search_iff [of "''<xbrli:instant>''" "''/xbrli:instant>''" c] by auto
  have "rx_search (tagPattern ''<xbrli:startDate>'' ''</xbrli:startDate>'') c = None \<or>
      rx_search (tagPattern ''<xbrli:endDate>'' ''</xbrli:endDate>'') c = None"
    using a tag_search_iff [of "''<xbrli:startDate>''" "''/xbrli:startDate>''" c]
      tag_search_iff [of "''<xbrli:endDate>''" "''/xbrli:endDate>''" c] by auto
  with i show "extractPeriodFromContext c =
      \<lparr>ptype = ''unknown'', instant = None, startDate = None, endDate = None\<rparr>"
    by (auto simp: extractPeriod_by_markers)
qed

lemma example_markers:
  "has_marker ''<xbrli:instant>'' ''</xbrli:instant>'' instantBlock"
  "\<not> has_marker ''<xbrli:instant>'' ''</xbrli:instant>'' durationBlock"
  "has_marker ''<xbrli:startDate>'' ''</xbrli:startDate>'' durationBlock"
  "has_marker ''<xbrli:endDate>'' ''</xbrli:endDate>'' durationBlock"
  "\<not> has_marker ''<xbrli:instant>'' ''</xbrli:instant>'' startOnlyBlock"
  "has_marker ''<xbrli:startDate>'' ''</xbrli:startDate>'' startOnlyBlock"
  "\<not> has_marker ''<xbrli:endDate>'' ''</xbrli:endDate>'' startOnlyBlock"
proof -
  have i: "rx_search instantPattern instantBlock \<noteq> None"
    by code_simp
  have d: "rx_search instantPattern durationBlock = None \<and>
      rx_search startDatePattern durationBlock \<noteq> None \<and>
      rx_search endDatePattern durationBlock \<noteq> None"
    by code_simp
  have s: "rx_search instantPattern startOnlyBlock = None \<and>
      rx_search startDatePattern startOnlyBlock \<noteq> None \<and>
      rx_search endDatePattern startOnlyBlock = None"
    by code_simp
  note iff = tag_search_iff [of "''<xbrli:instant>''" "''/xbrli:instant>''"]
    tag_search_iff [of "''<xbrli:startDate>''" "''/xbrli:startDate>''"]
    tag_search_iff [of "''<xbrli:endDate>''" "''/xbrli:endDate>''"]
  show "has_marker ''<xbrli:instant>'' ''</xbrli:instant>'' instantBlock"
    using i iff(1) [of instantBlock] by (simp add: date_patterns)
  show "\<not> has_marker ''<xbrli:instant>'' ''</xbrli:instant>'' durationBlock"
    using d iff(1) [of durationBlock] by (simp add: date_patterns)
  show "has_marker ''<xbrli:startDate>'' ''</xbrli:startDate>'' durationBlock"
    using d iff(2) [of durationBlock] by (simp add: date_patterns)
  show "has_marker ''<xbrli:endDate>'' ''</xbrli:endDate>'' durationBlock"
    using d iff(3) [of durationBlock] by (simp add: date_patterns)
  show "\<not> has_marker ''<xbrli:instant>'' ''</xbrli:instant>'' startOnlyBlock"
    using s iff(1) [of startOnlyBlock] by (simp add: date_patterns)
  show "has_marker ''<xbrli:startDate>'' ''</xbrli:startDate>'' startOnlyBlock"
    using s iff(2) [of startOnlyBlock] by (simp add: date_patterns)
  show "\<not> has_marker ''<xbrli:endDate>'' ''</xbrli:endDate>'' startOnlyBlock"
    using s iff(3) [of startOnlyBlock] by (simp add: date_patterns)
qed

theorem period_resolution_witness:
  "has_marker ''<xbrli:instant>'' ''</xbrli:instant>'' instantBlock \<and>
   extractPeriodFromContext instantBlock =
     \<lparr>ptype = ''instant'', instant = Some ''2025-03-30'', startDate = None, endDate = None\<rparr> \<and>
   \<not> has_marker ''<xbrli:instant>'' ''</xbrli:instant>'' durationBlock \<and>
   has_marker ''<xbrli:startDate>'' ''</xbrli:startDate>'' durationBlock \<and>
   has_marker ''<xbrli:endDate>'' ''</xbrli:endDate>'' durationBlock \<and>
   extractPeriodFromContext durationBlock =
     \<lparr>ptype = ''duration'', instant = None, startDate = Some ''2025-01-01'',
      endDate = Some ''2025-03-30''\<rparr> \<and>
   \<not> has_marker ''<xbrli:instant>'' ''</xbrli:instant>'' startOnlyBlock \<and>
   has_marker ''<xbrli:startDate>'' ''</xbrli:startDate>'' startOnlyBlock \<and>
   \<not> has_marker ''<xbrli:endDate>'' ''</xbrli:endDate>'' startOnlyBlock \<and>
   extractPeriodFromContext startOnlyBlock =
     \<lparr>ptype = ''unknown'', instant = None, startDate = None, endDate = None\<rparr>"
proof -
  have i: "extractPeriodFromContext instantBlock =
      \<lparr>ptype = ''instant'', instant = Some ''2025-03-30'', startDate = None, endDate = None\<rparr>"
    by code_simp
  have d: "extractPeriodFromContext durationBlock =
      \<lparr>ptype = ''duration'', instant = None, startDate = Some ''2025-01-01'',
       endDate = Some ''2025-03-30''\<rparr>"
    by code_simp
  have u: "extractPeriodFromContext startOnlyBlock =
      \<lparr>ptype = ''unknown'', instant = None, startDate = None, endDate = None\<rparr>"
    using period_resolution [of startOnlyBlock] example_markers(5,7) by blast
  show ?thesis using i d u example_markers by simp
qed

subsection \<open>Context identifiers\<close>

lemma foldl_assign_append:
  "extractContextsFromIxbrl htmlContent =
     foldl assignContext emptyContexts
       (exec_all contextPattern htmlContent @ exec_all xbrliContextPattern htmlContent)"
  by (simp add: extractContextsFromIxbrl_def)

lemma foldl_assign_other:
  assumes "\<forall>m \<in> set ms. grp m 1 \<noteq> k"
  shows "map_of (entries (foldl assignContext acc ms)) k = map_of (entries acc) k"
  using assms
proof (induction ms arbitrary: acc)
  case Nil
  show ?case by simp
next
  case (Cons a ms)
  from Cons.prems have "grp a 1 \<noteq> k" by simp
  then have "map_of (entries (assignContext acc a)) k = map_of (entries acc) k"
    by (simp add: assignContext_def update_conv')
  moreover have "map_of (entries (foldl assignContext (assignContext acc a) ms)) k =
      map_of (entries (assignContext acc a)) k"
    using Cons.IH [of "assignContext acc a"] Cons.prems by simp
  ultimately show ?case by simp
qed

lemma foldl_assign_distinct:
  "distinct (map fst (entries acc)) \<Longrightarrow>
     distinct (map fst (entries (foldl assignContext acc ms)))"
  by (induction ms arbitrary: acc) (simp_all add: assignContext_def distinct_update)

lemma key_count_distinct:
  "distinct (map fst al) \<Longrightarrow> map_of al k = Some v \<Longrightarrow> key_count k al = 1"
proof (induction al)
  case Nil
  then show ?case by simp
next
  case (Cons a al)
  show ?case
  proof (cases "fst a = k")
    case True
    with Cons.prems(1) have "k \<notin> fst ` set al" by auto
    then have "filter (\<lambda>kv. fst kv = k) al = []"
      by (auto simp: filter_empty_conv)
    with True show ?thesis by (simp add: key_count_def)
  next
    case False
    with Cons show ?thesis by (simp add: key_count_def)
  qed
qed

text \<open>
  C8, as the code has it.  The resolver first assigns the matches of the inline pattern,
  in the order of the text, and then those of the legacy pattern, in the order of the
  text.  When a match is the last one with its identifier in that order, and the
  identifier is not \<^verbatim>\<open>__proto__\<close>, the mapping returned has exactly one entry under the
  identifier, and it is the record of that match: an earlier match with the same
  identifier is overwritten.  A legacy block so overwrites an inline block with its
  identifier wherever the two stand in the text.  The function has no error result.
\<close>

theorem context_last_write_wins:
  assumes "exec_all contextPattern htmlContent @ exec_all xbrliContextPattern htmlContent =
      pre @ m # post"
    and "\<forall>m' \<in> set post. grp m' 1 \<noteq> grp m 1"
    and "grp m 1 \<noteq> ''__proto__''"
  shows "map_of (entries (extractContextsFromIxbrl htmlContent)) (grp m 1) =
           Some (contextRecord m) \<and>
         key_count (grp m 1) (entries (extractContextsFromIxbrl htmlContent)) = 1"
proof -
  let ?acc = "assignContext (foldl assignContext emptyContexts pre) m"
  have e: "extractContextsFromIxbrl htmlContent = foldl assignContext ?acc post"
    using assms(1) by (simp add: foldl_assign_append)
  have "map_of (entries ?acc) (grp m 1) = Some (contextRecord m)"
    using assms(3) by (simp add: assignContext_def update_conv')
  then have l: "map_of (entries (extractContextsFromIxbrl htmlContent)) (grp m 1) =
      Some (contextRecord m)"
    using assms(2) e foldl_assign_other [of post "grp m 1" ?acc] by simp
  have d: "distinct (map fst (entries (extractContextsFromIxbrl htmlContent)))"
    unfolding foldl_assign_append
    by (rule foldl_assign_distinct) (simp add: emptyContexts_def)
  show ?thesis using l key_count_distinct [OF d l] by simp
qed

theorem context_last_write_wins_witness:
  "exec_all contextPattern repeatedMarkup @ exec_all xbrliContextPattern repeatedMarkup =
     [inlineCaps] @ datedCaps # [] \<and>
   grp datedCaps 1 \<noteq> ''__proto__'' \<and>
   map_of (entries (extractContextsFromIxbrl repeatedMarkup)) ''c'' =
     Some (contextRecord datedCaps) \<and>
   key_count ''c'' (entries (extractContextsFromIxbrl repeatedMarkup)) = 1 \<and>
   ptype (period (contextRecord datedCaps)) = ''instant''"
proof -
  have h: "exec_all contextPattern repeatedMarkup @ exec_all xbrliContextPattern repeatedMarkup =
      [inlineCaps] @ datedCaps # []"
    by code_simp
  have p: "\<forall>m' \<in> set []. grp m' 1 \<noteq> grp datedCaps 1" by simp
  have g: "grp datedCaps 1 = ''c''"
    by (simp add: datedCaps_def grp_def)
  have n: "grp datedCaps 1 \<noteq> ''__proto__''"
    unfolding g by simp
  have t: "ptype (period (contextRecord datedCaps)) = ''instant''"
    by code_simp
  have w: "map_of (entries (extractContextsFromIxbrl repeatedMarkup)) ''c'' =
        Some (contextRecord datedCaps) \<and>
      key_count ''c'' (entries (extractContextsFromIxbrl repeatedMarkup)) = 1"
    using context_last_write_wins [OF h p n] unfolding g .
  show ?thesis
    using h n t w by simp
qed

text \<open>
  The sentence of the specification fails for one block of each vocabulary when "later"
  is read in the order of the text: the legacy block stands first in the text, the
  inline block with the same identifier stands after it, and the one record of the
  mapping is that of the legacy block.
\<close>

theorem context_order_counterexample:
  "twoContextsMarkup = legacyBlock @ inlineBlock \<and>
   exec_all xbrliContextPattern twoContextsMarkup = [legacyCaps] \<and>
   exec_all contextPattern twoContextsMarkup = [inlineCaps] \<and>
   entries (extractContextsFromIxbrl twoContextsMarkup) = [(''c'', contextRecord legacyCaps)] \<and>
   ptype (period (contextRecord legacyCaps)) = ''instant'' \<and>
   ptype (period (contextRecord inlineCaps)) = ''unknown''"
proof -
  have a: "exec_all xbrliContextPattern twoContextsMarkup = [legacyCaps]"
    by code_simp
  have b: "exec_all contextPattern twoContextsMarkup = [inlineCaps]"
    by code_simp
  have e: "entries (extractContextsFromIxbrl twoContextsMarkup) = [(''c'', contextRecord legacyCaps)]"
    by code_simp
  have t: "ptype (period (contextRecord legacyCaps)) = ''instant''"
      "ptype (period (contextRecord inlineCaps)) = ''unknown''"
    by code_simp+
  show ?thesis using a b e t by (simp add: twoContextsMarkup_def)
qed

text \<open>A block with the identifier \<^verbatim>\<open>__proto__\<close> adds no entry: its record becomes the
  prototype of the mapping.\<close>

lemma proto_identifier_adds_no_entry:
  "entries (extractContextsFromIxbrl protoMarkup) = [] \<and>
   prototype_record (extractContextsFromIxbrl protoMarkup) \<noteq> None"
  by code_simp

end
